theory Spec2Isabelle
  imports Complex_Main
begin

section \<open>Retail data pipeline: tables, cells and string primitives\<close>

text \<open>
  The pipeline of \<^verbatim>\<open>CleanInventory.py\<close>, \<^verbatim>\<open>CleanSales.py\<close> and
  \<^verbatim>\<open>BuildStarSchema.py\<close> transforms pandas data frames. A data frame is modelled as
  its list of column names together with its list of rows; a row is a record with one
  field per column the code reads. A missing value (NaN, NaT, None) of a text or date
  column is \<open>None\<close>. A cell of a column that the raw file may hold as numbers or as text
  (Stock, Quantity) is a \<open>cell\<close>. A number is the exact rational value of the float
  that a numeric column holds: rounding and infinities are outside this model, the cast
  to a 64-bit integer and its overflow are in it. Text is ASCII.
\<close>

record 'r frame =
  columns :: "string list"
  rows :: "'r list"

datatype cell = NaN | Num rat | Str string

datatype error =
    MissingColumns "string list"
  | KeyError "string list"
  | TypeError
  | DateParseError
  | IntCastingNaNError
  | FileNotFoundError string

subsection \<open>Python string methods\<close>

text \<open>\<^verbatim>\<open>str.isspace\<close> on one ASCII character: codes 9 to 13 and 28 to 32.\<close>

definition isspace :: "char \<Rightarrow> bool" where
  "isspace c = (let n = (of_char c :: nat) in (9 \<le> n \<and> n \<le> 13) \<or> (28 \<le> n \<and> n \<le> 32))"

text \<open>\<^verbatim>\<open>str.strip()\<close>: leading and trailing whitespace removed.\<close>

definition strip :: "string \<Rightarrow> string" where
  "strip s = rev (dropWhile isspace (rev (dropWhile isspace s)))"

text \<open>\<^verbatim>\<open>str.upper()\<close>: the letters a to z are mapped to A to Z.\<close>

definition upper_char :: "char \<Rightarrow> char" where
  "upper_char c =
     (let n = (of_char c :: nat) in if 97 \<le> n \<and> n \<le> 122 then char_of (n - 32) else c)"

definition upper :: "string \<Rightarrow> string" where
  "upper s = map upper_char s"

text \<open>
  \<^verbatim>\<open>s.split(sep)\<close> for a one-character separator, with no limit on the number of
  splits: every occurrence of the separator ends a part, and the result is never empty.
\<close>

fun str_split :: "char \<Rightarrow> string \<Rightarrow> string list" where
  "str_split sep [] = [[]]"
| "str_split sep (c # cs) =
     (if c = sep then [] # str_split sep cs
      else (case str_split sep cs of
              [] \<Rightarrow> [[c]]
            | p # ps \<Rightarrow> (c # p) # ps))"

text \<open>
  \<^verbatim>\<open>Series.str.split(sep, expand=True)\<close> yields a frame with integer column labels
  \<open>0, ..., n - 1\<close>, where \<open>n\<close> is the largest number of parts of any row (no column
  at all for a series without rows); a row with fewer parts is padded with None. A
  missing value stays missing in every column. \<open>expand_ncols\<close> is that \<open>n\<close>,
  \<open>expand_get\<close> is the lookup \<^verbatim>\<open>split_col[k]\<close>, which raises KeyError for a label
  that is not a column.
\<close>

definition str_split_col :: "char \<Rightarrow> string option list \<Rightarrow> string list option list" where
  "str_split_col sep col = map (map_option (str_split sep)) col"

definition expand_ncols :: "string list option list \<Rightarrow> nat" where
  "expand_ncols pss =
     fold max (map (\<lambda>p. case p of None \<Rightarrow> 1 | Some ps \<Rightarrow> length ps) pss) 0"

definition expand_cell :: "nat \<Rightarrow> string list option \<Rightarrow> string option" where
  "expand_cell k p =
     (case p of None \<Rightarrow> None
      | Some ps \<Rightarrow> if k < length ps then Some (ps ! k) else None)"

definition expand_get :: "string list option list \<Rightarrow> nat \<Rightarrow> string \<Rightarrow> error + string option list" where
  "expand_get pss k label =
     (if k < expand_ncols pss then Inr (map (expand_cell k) pss) else Inl (KeyError [label]))"

text \<open>Assigning a column appends its name unless the frame has it; dropping removes it.\<close>

definition set_column :: "string \<Rightarrow> string list \<Rightarrow> string list" where
  "set_column c cols = (if c \<in> set cols then cols else cols @ [c])"

definition drop_column :: "string \<Rightarrow> string list \<Rightarrow> string list" where
  "drop_column c cols = filter (\<lambda>x. x \<noteq> c) cols"

subsection \<open>Numeric column methods\<close>

text \<open>
  \<^verbatim>\<open>clip(lower=0)\<close>, \<^verbatim>\<open>fillna(0)\<close> and \<^verbatim>\<open>astype(int)\<close> on one value of a numeric
  column (None is NaN). The cast is the cast of a float to \<^verbatim>\<open>int64\<close>: it truncates
  towards zero, and a value whose integer part does not fit in 64 bits is no error but
  becomes the least 64-bit integer, \<open>- 2 ^ 63\<close>, which is what the conversion of the
  processor returns and pandas passes on without a warning.
\<close>

definition clip_lower :: "rat \<Rightarrow> rat option \<Rightarrow> rat option" where
  "clip_lower lo v = map_option (max lo) v"

definition fillna :: "rat \<Rightarrow> rat option \<Rightarrow> rat" where
  "fillna d v = (case v of None \<Rightarrow> d | Some x \<Rightarrow> x)"

definition int64_min :: int where
  "int64_min = - (2 ^ 63)"

definition int64_max :: int where
  "int64_max = 2 ^ 63 - 1"

definition trunc_zero :: "rat \<Rightarrow> int" where
  "trunc_zero x = (if 0 \<le> x then \<lfloor>x\<rfloor> else \<lceil>x\<rceil>)"

definition astype_int :: "rat \<Rightarrow> int" where
  "astype_int x =
     (if int64_min \<le> trunc_zero x \<and> trunc_zero x \<le> int64_max then trunc_zero x else int64_min)"

text \<open>A cell of a column read as numbers; a text cell makes the column non-numeric.\<close>

fun is_text :: "cell \<Rightarrow> bool" where
  "is_text (Str s) = True"
| "is_text c = False"

fun numeric :: "cell \<Rightarrow> rat option" where
  "numeric (Num x) = Some x"
| "numeric c = None"

section \<open>InventoryCleaner\<close>

record raw_inventory_row =
  raw_sku :: "string option"
  raw_design :: "string option"
  raw_category :: "string option"
  raw_stock :: cell
  raw_size :: "string option"
  raw_color :: "string option"

record inventory_row =
  inv_sku :: "string option"
  inv_design :: "string option"
  inv_stock :: int
  inv_size :: "string option"
  inv_color :: "string option"
  inv_brand_code :: "string option"
  inv_category_name :: "string option"

datatype inventory_log =
    LoadingRawInventory string
  | MissingColumnsError "string list"
  | AllColumnsPresent
  | StockNotNumeric
  | ShortSku
  | CategoryWithoutColon
  | CleaningInventory
  | DuplicateSkuDetected "inventory_row list"
  | NegativeStockError
  | EmptyBrandCodeError
  | EmptyCategoryNameError
  | DuplicateSkuError
  | UnusualSkuFormat
  | ValidationPassed
  | SavingInventory string

text \<open>
  \<^verbatim>\<open>check_required_columns\<close>: the required columns absent from the frame, in the
  order of \<open>required_cols\<close>; a non-empty list is logged and raised as a ValueError
  that carries the list.
\<close>

definition check_required_columns ::
  "'r frame \<Rightarrow> string list \<Rightarrow> inventory_log list \<times> error option" where
  "check_required_columns df required_cols =
     (let missing = filter (\<lambda>col. col \<notin> set (columns df)) required_cols
      in if missing \<noteq> [] then ([MissingColumnsError missing], Some (MissingColumns missing))
         else ([AllColumnsPresent], None))"

text \<open>
  \<^verbatim>\<open>validate_types\<close> only logs warnings about the raw frame: a Stock column that is
  not numeric, a SKU shorter than three characters, a Category without separator. The
  SKU, Design and Category columns are text here, so its three warnings about a column
  that is not text do not arise.
\<close>

definition validate_types :: "raw_inventory_row frame \<Rightarrow> inventory_log list" where
  "validate_types df =
     (if list_ex (\<lambda>r. is_text (raw_stock r)) (rows df) then [StockNotNumeric] else []) @
     (if list_ex (\<lambda>r. case raw_sku r of None \<Rightarrow> False | Some s \<Rightarrow> length s < 3) (rows df)
      then [ShortSku] else []) @
     (if length (filter (\<lambda>r. case raw_category r of None \<Rightarrow> False
                               | Some c \<Rightarrow> CHR '':'' \<in> set c) (rows df)) \<noteq> length (rows df)
      then [CategoryWithoutColon] else [])"

text \<open>
  The first three steps of \<^verbatim>\<open>clean_data\<close>: \<^verbatim>\<open>dropna(how="all")\<close>,
  \<^verbatim>\<open>dropna(subset=[...])\<close> and the normalisation of the SKU. A row with every cell
  missing also lacks its SKU, so the second step removes whatever the first removes,
  whichever further columns the file has.
\<close>

definition all_missing :: "raw_inventory_row \<Rightarrow> bool" where
  "all_missing r \<longleftrightarrow>
     raw_sku r = None \<and> raw_design r = None \<and> raw_category r = None \<and>
     raw_stock r = NaN \<and> raw_size r = None \<and> raw_color r = None"

definition essential_present :: "raw_inventory_row \<Rightarrow> bool" where
  "essential_present r \<longleftrightarrow>
     raw_sku r \<noteq> None \<and> raw_design r \<noteq> None \<and> raw_category r \<noteq> None"

definition normalize_sku :: "string option \<Rightarrow> string option" where
  "normalize_sku s = map_option (upper \<circ> strip) s"

definition retained :: "raw_inventory_row frame \<Rightarrow> raw_inventory_row list" where
  "retained df =
     map (\<lambda>r. r\<lparr>raw_sku := normalize_sku (raw_sku r)\<rparr>)
       (filter essential_present (filter (\<lambda>r. \<not> all_missing r) (rows df)))"

text \<open>\<^verbatim>\<open>df.duplicated(subset="SKU Code", keep=False)\<close>: every row whose SKU occurs more than once.\<close>

definition duplicated_all :: "inventory_row list \<Rightarrow> inventory_row list" where
  "duplicated_all rs =
     filter (\<lambda>r. 1 < length (filter (\<lambda>q. inv_sku q = inv_sku r) rs)) rs"

definition clean_row ::
  "raw_inventory_row \<Rightarrow> string option \<Rightarrow> string option \<Rightarrow> inventory_row" where
  "clean_row r b c =
     \<lparr>inv_sku = raw_sku r, inv_design = raw_design r,
      inv_stock = astype_int (fillna 0 (clip_lower 0 (numeric (raw_stock r)))),
      inv_size = raw_size r, inv_color = raw_color r,
      inv_brand_code = map_option strip b, inv_category_name = map_option strip c\<rparr>"

definition clean_columns :: "string list \<Rightarrow> string list" where
  "clean_columns cols =
     drop_column ''Category'' (set_column ''CategoryName'' (set_column ''BrandCode'' cols))"

text \<open>
  \<^verbatim>\<open>InventoryCleaner.clean_data\<close>, with the log it writes and either the exception
  it raises or the frame it returns. \<^verbatim>\<open>dropna(subset=...)\<close> and the lookup of Stock
  raise KeyError on a frame that lacks the column; \<^verbatim>\<open>clip\<close> raises TypeError on a
  Stock column holding text; the two lookups in the expanded split raise KeyError when
  the split has no such column. A frame without a retained row raises as well: it is
  given the KeyError of the lookup of column 0 here, while the kind of the exception
  depends on the types pandas gave the columns. Duplicated SKUs are logged and kept.
\<close>

definition clean_data ::
  "raw_inventory_row frame \<Rightarrow> inventory_log list \<times> (error + inventory_row frame)" where
  "clean_data df =
     (let missing = filter (\<lambda>c. c \<notin> set (columns df)) [''SKU Code'', ''Design No.'', ''Category''];
          rs = retained df;
          split_col = str_split_col CHR '':'' (map raw_category rs)
      in if missing \<noteq> [] then ([CleaningInventory], Inl (KeyError missing))
         else if ''Stock'' \<notin> set (columns df) then ([CleaningInventory], Inl (KeyError [''Stock'']))
         else if list_ex (\<lambda>r. is_text (raw_stock r)) rs then ([CleaningInventory], Inl TypeError)
         else
           (case expand_get split_col 0 ''0'' of
              Inl e \<Rightarrow> ([CleaningInventory], Inl e)
            | Inr bs \<Rightarrow>
              (case expand_get split_col 1 ''1'' of
                 Inl e \<Rightarrow> ([CleaningInventory], Inl e)
               | Inr cs \<Rightarrow>
                 (let out = map (\<lambda>(r, b, c). clean_row r b c) (zip rs (zip bs cs));
                      duplicates = duplicated_all out
                  in (CleaningInventory #
                        (if duplicates \<noteq> [] then [DuplicateSkuDetected duplicates] else []),
                      Inr \<lparr>columns = clean_columns (columns df), rows = out\<rparr>)))))"

text \<open>\<^verbatim>\<open>verification_data\<close>: the checks after cleaning; they log and never raise.\<close>

definition blank :: "string option \<Rightarrow> bool" where
  "blank v = (case v of None \<Rightarrow> True | Some s \<Rightarrow> strip s = [])"

definition verification_data :: "inventory_row frame \<Rightarrow> inventory_log list" where
  "verification_data df =
     (let e1 = (if list_ex (\<lambda>r. inv_stock r < 0) (rows df) then [NegativeStockError] else []);
          e2 = (if list_ex (\<lambda>r. blank (inv_brand_code r)) (rows df) then [EmptyBrandCodeError] else []);
          e3 = (if list_ex (\<lambda>r. blank (inv_category_name r)) (rows df)
                then [EmptyCategoryNameError] else []);
          e4 = (if \<not> distinct (map inv_sku (rows df)) then [DuplicateSkuError] else []);
          w = (if length (filter (\<lambda>r. case inv_sku r of None \<Rightarrow> False
                                       | Some s \<Rightarrow> CHR ''-'' \<in> set s) (rows df)) \<noteq> length (rows df)
               then [UnusualSkuFormat] else []);
          issues = e1 @ e2 @ e3 @ e4
      in issues @ w @ (if issues = [] then [ValidationPassed] else []))"

text \<open>
  The cleaner object with its two paths. Files are maps from paths to frames:
  \<^verbatim>\<open>load_data\<close> reads its input from the raw files, \<^verbatim>\<open>save_data\<close> writes the
  clean frame at the output path.
\<close>

record inventory_cleaner =
  input_path :: string
  output_path :: string

definition load_data ::
  "inventory_cleaner \<Rightarrow> (string \<rightharpoonup> raw_inventory_row frame) \<Rightarrow>
   inventory_log list \<times> (error + raw_inventory_row frame)" where
  "load_data self raw_files =
     ([LoadingRawInventory (input_path self)],
      case raw_files (input_path self) of
        None \<Rightarrow> Inl (FileNotFoundError (input_path self))
      | Some df \<Rightarrow> Inr df)"

definition save_data ::
  "inventory_cleaner \<Rightarrow> inventory_row frame \<Rightarrow> (string \<rightharpoonup> inventory_row frame) \<Rightarrow>
   inventory_log list \<times> (string \<rightharpoonup> inventory_row frame)" where
  "save_data self df clean_files =
     ([SavingInventory (output_path self)], clean_files(output_path self \<mapsto> df))"

text \<open>
  \<^verbatim>\<open>InventoryCleaner.run\<close>: the log, the exception that ended the run (if any) and
  the clean files after the run. \<open>required_cols\<close> is the list of that name in \<^verbatim>\<open>run\<close>.
\<close>

definition required_cols :: "string list" where
  "required_cols = [''SKU Code'', ''Design No.'', ''Category'', ''Stock'']"

definition run ::
  "inventory_cleaner \<Rightarrow> (string \<rightharpoonup> raw_inventory_row frame) \<Rightarrow>
   (string \<rightharpoonup> inventory_row frame) \<Rightarrow>
   inventory_log list \<times> error option \<times> (string \<rightharpoonup> inventory_row frame)" where
  "run self raw_files clean_files =
     (case load_data self raw_files of
        (l0, Inl e) \<Rightarrow> (l0, Some e, clean_files)
      | (l0, Inr df) \<Rightarrow>
        (case check_required_columns df required_cols of
           (l1, Some e) \<Rightarrow> (l0 @ l1, Some e, clean_files)
         | (l1, None) \<Rightarrow>
           (let l2 = validate_types df in
            case clean_data df of
              (l3, Inl e) \<Rightarrow> (l0 @ l1 @ l2 @ l3, Some e, clean_files)
            | (l3, Inr cleaned) \<Rightarrow>
              (let l4 = verification_data cleaned;
                   (l5, files) = save_data self cleaned clean_files
               in (l0 @ l1 @ l2 @ l3 @ l4 @ l5, None, files)))))"

section \<open>Dates\<close>

text \<open>
  A pandas Timestamp, read at the precision of a day. A Timestamp is a day of the
  calendar; its year is not bounded here, since pandas keeps the resolution that the
  date needs and so also holds a date such as 0999-01-02.
\<close>

record date =
  year :: nat
  month :: nat
  day :: nat

definition leap_year :: "nat \<Rightarrow> bool" where
  "leap_year y \<longleftrightarrow> (y mod 4 = 0 \<and> y mod 100 \<noteq> 0) \<or> y mod 400 = 0"

definition days_in_month :: "nat \<Rightarrow> nat \<Rightarrow> nat" where
  "days_in_month y m =
     (if m = 2 then (if leap_year y then 29 else 28)
      else if m \<in> {4, 6, 9, 11} then 30 else 31)"

definition calendar_date :: "date \<Rightarrow> bool" where
  "calendar_date d \<longleftrightarrow>
     1 \<le> month d \<and> month d \<le> 12 \<and> 1 \<le> day d \<and> day d \<le> days_in_month (year d) (month d)"

text \<open>
  \<^verbatim>\<open>pd.to_datetime\<close> on a text column. Which texts pandas reads as dates, and as which
  date, is the parameter \<open>parse\<close>: it is given the whole column and the value, since
  pandas may infer one format for the column. A missing value becomes NaT. pandas
  yields a Timestamp for a day of the calendar only, and \<open>parse\<close> is free, so a
  result of \<open>parse\<close> outside the calendar counts as no date. A text that is no date
  becomes NaT under \<^verbatim>\<open>errors="coerce"\<close> and raises otherwise.
\<close>

type_synonym date_parser = "string option list \<Rightarrow> string \<Rightarrow> date option"

definition to_timestamp :: "date_parser \<Rightarrow> string option list \<Rightarrow> string \<Rightarrow> date option" where
  "to_timestamp parse col s =
     (case parse col s of
        None \<Rightarrow> None
      | Some d \<Rightarrow> if calendar_date d then Some d else None)"

definition to_datetime_coerce :: "date_parser \<Rightarrow> string option list \<Rightarrow> date option list" where
  "to_datetime_coerce parse col =
     map (\<lambda>v. case v of None \<Rightarrow> None | Some s \<Rightarrow> to_timestamp parse col s) col"

definition to_datetime :: "date_parser \<Rightarrow> string option list \<Rightarrow> error + date option list" where
  "to_datetime parse col =
     (if list_ex (\<lambda>v. case v of None \<Rightarrow> False | Some s \<Rightarrow> to_timestamp parse col s = None) col
      then Inl DateParseError
      else Inr (to_datetime_coerce parse col))"

text \<open>
  One parser for the witnesses: the ISO form \<^verbatim>\<open>YYYY-MM-DD\<close>, which is how
  \<^verbatim>\<open>to_csv\<close> writes a column of dates.
\<close>

definition digit_value :: "char \<Rightarrow> nat option" where
  "digit_value c =
     (let n = (of_char c :: nat) in if 48 \<le> n \<and> n \<le> 57 then Some (n - 48) else None)"

fun digits_value :: "nat \<Rightarrow> string \<Rightarrow> nat option" where
  "digits_value acc [] = Some acc"
| "digits_value acc (c # cs) =
     (case digit_value c of None \<Rightarrow> None | Some v \<Rightarrow> digits_value (10 * acc + v) cs)"

definition iso_date :: date_parser where
  "iso_date col s =
     (if length s = 10 \<and> s ! 4 = CHR ''-'' \<and> s ! 7 = CHR ''-'' then
        (case (digits_value 0 (take 4 s), digits_value 0 (take 2 (drop 5 s)),
               digits_value 0 (drop 8 s)) of
           (Some y, Some m, Some d) \<Rightarrow> Some \<lparr>year = y, month = m, day = d\<rparr>
         | _ \<Rightarrow> None)
      else None)"

text \<open>
  \<^verbatim>\<open>strftime("%Y%m%d")\<close> and the cast of its text to an integer. \<open>str_nat\<close> is the
  decimal text of a number, \<open>zfill\<close> pads it with zeros on the left. The year is
  written with four digits at least; a platform that writes a year below 1000 without
  the zeros gives a text that is read as the same integer.
\<close>

definition digit_char :: "nat \<Rightarrow> char" where
  "digit_char n = char_of (48 + n)"

function str_nat :: "nat \<Rightarrow> string" where
  "str_nat n = (if n < 10 then [digit_char n] else str_nat (n div 10) @ [digit_char (n mod 10)])"
  by pat_completeness auto
termination
  by (relation "measure id") auto

declare str_nat.simps [simp del]

definition zfill :: "nat \<Rightarrow> string \<Rightarrow> string" where
  "zfill w s = replicate (w - length s) CHR ''0'' @ s"

definition strftime_Ymd :: "date \<Rightarrow> string" where
  "strftime_Ymd d = zfill 4 (str_nat (year d)) @ zfill 2 (str_nat (month d)) @ zfill 2 (str_nat (day d))"

definition int_of_str :: "string \<Rightarrow> int option" where
  "int_of_str s = (if s = [] then None else map_option int (digits_value 0 s))"

section \<open>SalesCleaner\<close>

text \<open>A row of a sales file as loaded: \<^verbatim>\<open>Sales_raw.csv\<close> or \<^verbatim>\<open>Sales_clean.csv\<close>.\<close>

record sales_csv_row =
  csv_sku :: "string option"
  csv_quantity :: cell
  csv_date :: "string option"

record sales_row =
  sale_sku :: "string option"
  sale_quantity :: int
  sale_date :: date

datatype sales_log =
    CleaningSales
  | NegativeQuantities
  | RowsDropped nat

text \<open>
  \<^verbatim>\<open>pd.to_numeric(errors="coerce")\<close> on one cell: a number stays, a text is read by
  the parameter \<open>parse\<close> and becomes NaN when it is no number.
\<close>

definition to_numeric :: "(string \<Rightarrow> rat option) \<Rightarrow> cell \<Rightarrow> rat option" where
  "to_numeric parse c = (case c of NaN \<Rightarrow> None | Num x \<Rightarrow> Some x | Str s \<Rightarrow> parse s)"

definition sales_all_missing :: "sales_csv_row \<Rightarrow> bool" where
  "sales_all_missing r \<longleftrightarrow> csv_sku r = None \<and> csv_quantity r = NaN \<and> csv_date r = None"

definition sales_essential_present :: "sales_csv_row \<Rightarrow> bool" where
  "sales_essential_present r \<longleftrightarrow> csv_sku r \<noteq> None \<and> csv_quantity r \<noteq> NaN \<and> csv_date r \<noteq> None"

text \<open>Steps 1 to 3: the rows left with their parsed dates.\<close>

definition dated :: "date_parser \<Rightarrow> sales_csv_row frame \<Rightarrow> (sales_csv_row \<times> date) list" where
  "dated parse df =
     (let rs = filter sales_essential_present (filter (\<lambda>r. \<not> sales_all_missing r) (rows df));
          ds = to_datetime_coerce parse (map csv_date rs)
      in List.map_filter (\<lambda>(r, d). map_option (Pair r) d) (zip rs ds))"

text \<open>Step 4: the integer quantities; the clip runs only when some quantity is negative.\<close>

definition quantity_int :: "(string \<Rightarrow> rat option) \<Rightarrow> cell \<Rightarrow> int" where
  "quantity_int parse c = astype_int (fillna 0 (to_numeric parse c))"

definition normalized :: "date_parser \<Rightarrow> (string \<Rightarrow> rat option) \<Rightarrow> sales_csv_row frame \<Rightarrow> sales_row list" where
  "normalized parse_date parse_num df =
     map (\<lambda>(r, d). \<lparr>sale_sku = normalize_sku (csv_sku r),
                    sale_quantity = quantity_int parse_num (csv_quantity r),
                    sale_date = d\<rparr>) (dated parse_date df)"

definition clip_quantity :: "sales_row list \<Rightarrow> sales_row list" where
  "clip_quantity rs = map (\<lambda>r. r\<lparr>sale_quantity := max 0 (sale_quantity r)\<rparr>) rs"

text \<open>The frame before the referential filter: clipped when some quantity is negative.\<close>

definition quantities_clipped ::
  "date_parser \<Rightarrow> (string \<Rightarrow> rat option) \<Rightarrow> sales_csv_row frame \<Rightarrow> sales_row list" where
  "quantities_clipped parse_date parse_num df =
     (let rs = normalized parse_date parse_num df
      in if list_ex (\<lambda>r. sale_quantity r < 0) rs then clip_quantity rs else rs)"

definition isin :: "string option \<Rightarrow> string list \<Rightarrow> bool" where
  "isin v valid = (case v of None \<Rightarrow> False | Some s \<Rightarrow> s \<in> set valid)"

text \<open>
  \<^verbatim>\<open>SalesCleaner.clean_data\<close>, with its log and either the exception or the clean
  frame. \<open>valid_skus\<close> are the SKUs of the inventory frame that are not missing.
\<close>

definition valid_skus :: "inventory_row frame \<Rightarrow> string list" where
  "valid_skus df_inventory = List.map_filter inv_sku (rows df_inventory)"

definition sales_clean_data ::
  "date_parser \<Rightarrow> (string \<Rightarrow> rat option) \<Rightarrow> sales_csv_row frame \<Rightarrow> inventory_row frame \<Rightarrow>
   sales_log list \<times> (error + sales_row frame)" where
  "sales_clean_data parse_date parse_num df_sales df_inventory =
     (let missing = filter (\<lambda>c. c \<notin> set (columns df_sales)) [''SKU Code'', ''Quantity'', ''Date''];
          l1 = (if list_ex (\<lambda>r. sale_quantity r < 0) (normalized parse_date parse_num df_sales)
                then [NegativeQuantities] else []);
          rs = quantities_clipped parse_date parse_num df_sales;
          before = length rs;
          kept = filter (\<lambda>r. isin (sale_sku r) (valid_skus df_inventory)) rs;
          dropped = before - length kept
      in if missing \<noteq> [] then ([CleaningSales], Inl (KeyError missing))
         else if ''SKU Code'' \<notin> set (columns df_inventory)
           then (CleaningSales # l1, Inl (KeyError [''SKU Code'']))
         else (CleaningSales # l1 @ (if dropped > 0 then [RowsDropped dropped] else []),
               Inr \<lparr>columns = columns df_sales, rows = kept\<rparr>))"

section \<open>StarSchemaBuilder\<close>

record dim_product_row =
  product_key :: int
  dp_sku :: "string option"
  dp_design :: "string option"
  dp_size :: "string option"
  dp_color :: "string option"
  dp_brand_code :: "string option"
  dp_category_name :: "string option"

record fact_sales_row =
  date_key :: int
  fact_product_key :: "int option"
  fact_quantity :: cell

definition dim_columns :: "string list" where
  "dim_columns = [''SKU Code'', ''Design No.'', ''Size'', ''Color'', ''BrandCode'', ''CategoryName'']"

text \<open>
  \<^verbatim>\<open>build_dim_product\<close>: the six descriptive columns, then the key column
  \<^verbatim>\<open>range(1, len(dim_product) + 1)\<close> inserted in front. Selecting a column the frame
  lacks raises KeyError. The file written is the frame returned.
\<close>

definition build_dim_product :: "inventory_row frame \<Rightarrow> error + dim_product_row frame" where
  "build_dim_product df_inventory =
     (let missing = filter (\<lambda>c. c \<notin> set (columns df_inventory)) dim_columns;
          rs = rows df_inventory
      in if missing \<noteq> [] then Inl (KeyError missing)
         else Inr \<lparr>columns = ''ProductKey'' # dim_columns,
                  rows = map (\<lambda>(k, r). \<lparr>product_key = k, dp_sku = inv_sku r, dp_design = inv_design r,
                                         dp_size = inv_size r, dp_color = inv_color r,
                                         dp_brand_code = inv_brand_code r,
                                         dp_category_name = inv_category_name r\<rparr>)
                           (zip [1..int (length rs)] rs)\<rparr>)"

text \<open>
  The left merge on the SKU: every sales row, in order, once for each product row with
  the same SKU (in the order of the product rows), and once with a missing key when
  there is none.
\<close>

definition merge_left ::
  "sales_csv_row list \<Rightarrow> dim_product_row list \<Rightarrow> (sales_csv_row \<times> int option) list" where
  "merge_left ls rs =
     concat (map (\<lambda>l. case filter (\<lambda>r. dp_sku r = csv_sku l) rs of
                         [] \<Rightarrow> [(l, None)]
                       | ms \<Rightarrow> map (\<lambda>r. (l, Some (product_key r))) ms) ls)"

text \<open>
  \<^verbatim>\<open>dt.strftime("%Y%m%d").astype(int)\<close> on one Timestamp; NaT has no text and cannot
  be cast.
\<close>

definition date_key_of :: "date option \<Rightarrow> error + int" where
  "date_key_of v =
     (case v of
        None \<Rightarrow> Inl IntCastingNaNError
      | Some d \<Rightarrow> (case int_of_str (strftime_Ymd d) of
                    None \<Rightarrow> Inl IntCastingNaNError
                  | Some k \<Rightarrow> Inr k))"

fun sequence :: "(error + 'a) list \<Rightarrow> error + 'a list" where
  "sequence [] = Inr []"
| "sequence (x # xs) =
     (case x of
        Inl e \<Rightarrow> Inl e
      | Inr v \<Rightarrow> (case sequence xs of Inl e \<Rightarrow> Inl e | Inr vs \<Rightarrow> Inr (v # vs)))"

text \<open>
  \<^verbatim>\<open>build_fact_sales\<close>, from the sales frame read at \<^verbatim>\<open>sales_clean_path\<close>. A sales
  frame that already has a ProductKey column gets suffixed columns from the merge, so
  the final selection of ProductKey raises KeyError.
\<close>

definition build_fact_sales ::
  "date_parser \<Rightarrow> sales_csv_row frame \<Rightarrow> dim_product_row frame \<Rightarrow> error + fact_sales_row frame" where
  "build_fact_sales parse df_sales dim_product =
     (let missing_dim = filter (\<lambda>c. c \<notin> set (columns dim_product)) [''ProductKey'', ''SKU Code''];
          df_fact = merge_left (rows df_sales) (rows dim_product)
      in if missing_dim \<noteq> [] then Inl (KeyError missing_dim)
         else if ''SKU Code'' \<notin> set (columns df_sales) then Inl (KeyError [''SKU Code''])
         else if ''Date'' \<notin> set (columns df_sales) then Inl (KeyError [''Date''])
         else
           (case to_datetime parse (map (\<lambda>(l, k). csv_date l) df_fact) of
              Inl e \<Rightarrow> Inl e
            | Inr dates \<Rightarrow>
              (case sequence (map date_key_of dates) of
                 Inl e \<Rightarrow> Inl e
               | Inr keys \<Rightarrow>
                 if ''ProductKey'' \<in> set (columns df_sales) then Inl (KeyError [''ProductKey''])
                 else if ''Quantity'' \<notin> set (columns df_sales) then Inl (KeyError [''Quantity''])
                 else Inr \<lparr>columns = [''DateKey'', ''ProductKey'', ''Quantity''],
                          rows = map (\<lambda>(dk, (l, k)). \<lparr>date_key = dk, fact_product_key = k,
                                                       fact_quantity = csv_quantity l\<rparr>)
                                   (zip keys df_fact)\<rparr>)))"

section \<open>Tables used as concrete inputs\<close>

definition inventory_columns :: "string list" where
  "inventory_columns = [''SKU Code'', ''Design No.'', ''Category'', ''Stock'', ''Size'', ''Color'']"

definition clean_inventory_columns :: "string list" where
  "clean_inventory_columns =
     [''SKU Code'', ''Design No.'', ''Stock'', ''Size'', ''Color'', ''BrandCode'', ''CategoryName'']"

definition sales_columns :: "string list" where
  "sales_columns = [''SKU Code'', ''Quantity'', ''Date'']"

text \<open>Two raw inventory rows whose SKUs differ only in case and surrounding blanks.\<close>

definition duplicate_input :: "raw_inventory_row frame" where
  "duplicate_input =
     \<lparr>columns = inventory_columns,
      rows = [\<lparr>raw_sku = Some ''sku-1'', raw_design = Some ''D1'', raw_category = Some ''BR1:Shirts'',
               raw_stock = Num 4, raw_size = Some ''M'', raw_color = Some ''Red''\<rparr>,
              \<lparr>raw_sku = Some '' SKU-1 '', raw_design = Some ''D2'', raw_category = Some ''BR2:Hats'',
               raw_stock = Num 7, raw_size = Some ''L'', raw_color = Some ''Blue''\<rparr>]\<rparr>"

definition duplicate_output :: "inventory_row frame" where
  "duplicate_output =
     \<lparr>columns = clean_inventory_columns,
      rows = [\<lparr>inv_sku = Some ''SKU-1'', inv_design = Some ''D1'', inv_stock = 4,
               inv_size = Some ''M'', inv_color = Some ''Red'',
               inv_brand_code = Some ''BR1'', inv_category_name = Some ''Shirts''\<rparr>,
              \<lparr>inv_sku = Some ''SKU-1'', inv_design = Some ''D2'', inv_stock = 7,
               inv_size = Some ''L'', inv_color = Some ''Blue'',
               inv_brand_code = Some ''BR2'', inv_category_name = Some ''Hats''\<rparr>]\<rparr>"

text \<open>
  A clean inventory with one product, and a raw sales table: a SKU to normalise, a
  quantity that is no number, a negative quantity, a SKU the inventory lacks, and a
  date that is no date.
\<close>

definition one_product :: "inventory_row frame" where
  "one_product =
     \<lparr>columns = clean_inventory_columns,
      rows = [\<lparr>inv_sku = Some ''SKU001'', inv_design = Some ''D1'', inv_stock = 0,
               inv_size = Some ''M'', inv_color = Some ''Red'',
               inv_brand_code = Some ''BR1'', inv_category_name = Some ''Shirts''\<rparr>]\<rparr>"

definition raw_sales :: "sales_csv_row frame" where
  "raw_sales =
     \<lparr>columns = sales_columns,
      rows = [\<lparr>csv_sku = Some '' sku001'', csv_quantity = Num 3, csv_date = Some ''2024-03-05''\<rparr>,
              \<lparr>csv_sku = Some ''SKU001'', csv_quantity = Str ''many'', csv_date = Some ''2024-03-06''\<rparr>,
              \<lparr>csv_sku = Some ''SKU001'', csv_quantity = Num (- 2), csv_date = Some ''2024-03-07''\<rparr>,
              \<lparr>csv_sku = Some ''SKU999'', csv_quantity = Num 5, csv_date = Some ''2024-03-08''\<rparr>,
              \<lparr>csv_sku = Some ''SKU001'', csv_quantity = Num 1, csv_date = Some ''yesterday''\<rparr>]\<rparr>"

definition clean_sales :: "sales_row frame" where
  "clean_sales =
     \<lparr>columns = sales_columns,
      rows = [\<lparr>sale_sku = Some ''SKU001'', sale_quantity = 3,
               sale_date = \<lparr>year = 2024, month = 3, day = 5\<rparr>\<rparr>,
              \<lparr>sale_sku = Some ''SKU001'', sale_quantity = 0,
               sale_date = \<lparr>year = 2024, month = 3, day = 6\<rparr>\<rparr>,
              \<lparr>sale_sku = Some ''SKU001'', sale_quantity = 0,
               sale_date = \<lparr>year = 2024, month = 3, day = 7\<rparr>\<rparr>]\<rparr>"

text \<open>A reader of numbers that reads no text as a number.\<close>

definition no_number :: "string \<Rightarrow> rat option" where
  "no_number s = None"

text \<open>The parts of the Category of a row, as \<^verbatim>\<open>clean_data\<close> splits it.\<close>

definition split_category :: "raw_inventory_row \<Rightarrow> string list option" where
  "split_category r = map_option (str_split CHR '':'') (raw_category r)"

text \<open>Scenario A of the specification: one raw row with a negative stock.\<close>

definition scenario_a :: "raw_inventory_row frame" where
  "scenario_a =
     \<lparr>columns = inventory_columns,
      rows = [\<lparr>raw_sku = Some ''SKU001'', raw_design = Some ''D1'', raw_category = Some ''BR1:Shirts'',
               raw_stock = Num (- 5), raw_size = Some ''M'', raw_color = Some ''Red''\<rparr>]\<rparr>"

text \<open>A Category with two separators, and its clean row.\<close>

definition nested_category_input :: "raw_inventory_row frame" where
  "nested_category_input =
     \<lparr>columns = inventory_columns,
      rows = [\<lparr>raw_sku = Some ''SKU001'', raw_design = Some ''D1'',
               raw_category = Some ''BR1:Mens:Shirts'',
               raw_stock = Num 2, raw_size = Some ''M'', raw_color = Some ''Red''\<rparr>]\<rparr>"

definition nested_category_output :: "inventory_row frame" where
  "nested_category_output =
     \<lparr>columns = clean_inventory_columns,
      rows = [\<lparr>inv_sku = Some ''SKU001'', inv_design = Some ''D1'', inv_stock = 2,
               inv_size = Some ''M'', inv_color = Some ''Red'',
               inv_brand_code = Some ''BR1'', inv_category_name = Some ''Mens''\<rparr>]\<rparr>"

text \<open>A table whose only Category has no separator.\<close>

definition no_separator_input :: "raw_inventory_row frame" where
  "no_separator_input =
     \<lparr>columns = inventory_columns,
      rows = [\<lparr>raw_sku = Some ''SKU001'', raw_design = Some ''D1'', raw_category = Some ''Shirts'',
               raw_stock = Num 2, raw_size = Some ''M'', raw_color = Some ''Red''\<rparr>]\<rparr>"

text \<open>Scenario B of the specification: a raw inventory file without the Stock column.\<close>

definition missing_stock_input :: "raw_inventory_row frame" where
  "missing_stock_input =
     \<lparr>columns = [''SKU Code'', ''Design No.'', ''Category'', ''Size'', ''Color''],
      rows = [\<lparr>raw_sku = Some ''SKU001'', raw_design = Some ''D1'', raw_category = Some ''BR1:Shirts'',
               raw_stock = NaN, raw_size = Some ''M'', raw_color = Some ''Red''\<rparr>]\<rparr>"

definition the_cleaner :: inventory_cleaner where
  "the_cleaner = \<lparr>input_path = ''../data/raw/Inventory_raw.csv'',
                  output_path = ''../data/clean/Inventory_clean.csv''\<rparr>"

text \<open>
  The split of a Category in the words of the specification: on the first separator,
  the trimmed text on its left and the trimmed text on its right.
\<close>

definition spec_split_first :: "string \<Rightarrow> string \<times> string" where
  "spec_split_first t =
     (strip (takeWhile (\<lambda>x. x \<noteq> CHR '':'') t), strip (tl (dropWhile (\<lambda>x. x \<noteq> CHR '':'') t)))"

text \<open>
  The normalisation of Stock in the words of the specification: a negative value is
  clamped to 0, a missing value is 0, and the value is coerced to an integer. It says
  nothing of a text.
\<close>

definition spec_normalize_stock :: "cell \<Rightarrow> int option" where
  "spec_normalize_stock c =
     (case c of NaN \<Rightarrow> Some 0 | Num x \<Rightarrow> Some (if x < 0 then 0 else \<lfloor>x\<rfloor>) | Str s \<Rightarrow> None)"

text \<open>
  Seven products, the last of them SKU001, and the dimension table built from them;
  scenario D of the specification, one clean sales row of SKU001; and a sales table with
  a second row whose SKU no product has.
\<close>

definition seven_products :: "inventory_row frame" where
  "seven_products =
     \<lparr>columns = clean_inventory_columns,
      rows = map (\<lambda>s. \<lparr>inv_sku = Some s, inv_design = Some ''D1'', inv_stock = 1,
                       inv_size = Some ''M'', inv_color = Some ''Red'',
                       inv_brand_code = Some ''BR1'', inv_category_name = Some ''Shirts''\<rparr>)
               [''SKU101'', ''SKU102'', ''SKU103'', ''SKU104'', ''SKU105'', ''SKU106'', ''SKU001'']\<rparr>"

definition seven_dim :: "dim_product_row frame" where
  "seven_dim =
     \<lparr>columns = ''ProductKey'' # dim_columns,
      rows = map (\<lambda>(k, s). \<lparr>product_key = k, dp_sku = Some s, dp_design = Some ''D1'',
                            dp_size = Some ''M'', dp_color = Some ''Red'',
                            dp_brand_code = Some ''BR1'', dp_category_name = Some ''Shirts''\<rparr>)
               [(1, ''SKU101''), (2, ''SKU102''), (3, ''SKU103''), (4, ''SKU104''),
                (5, ''SKU105''), (6, ''SKU106''), (7, ''SKU001'')]\<rparr>"

text \<open>The row of SKU001 in that dimension table.\<close>

definition seventh :: dim_product_row where
  "seventh = \<lparr>product_key = 7, dp_sku = Some ''SKU001'', dp_design = Some ''D1'',
              dp_size = Some ''M'', dp_color = Some ''Red'',
              dp_brand_code = Some ''BR1'', dp_category_name = Some ''Shirts''\<rparr>"

definition scenario_d :: "sales_csv_row frame" where
  "scenario_d =
     \<lparr>columns = sales_columns,
      rows = [\<lparr>csv_sku = Some ''SKU001'', csv_quantity = Num 10, csv_date = Some ''2024-03-05''\<rparr>]\<rparr>"

definition scenario_d_fact :: "fact_sales_row frame" where
  "scenario_d_fact =
     \<lparr>columns = [''DateKey'', ''ProductKey'', ''Quantity''],
      rows = [\<lparr>date_key = 20240305, fact_product_key = Some 7, fact_quantity = Num 10\<rparr>]\<rparr>"

definition sales_with_miss :: "sales_csv_row frame" where
  "sales_with_miss =
     \<lparr>columns = sales_columns,
      rows = [\<lparr>csv_sku = Some ''SKU001'', csv_quantity = Num 10, csv_date = Some ''2024-03-05''\<rparr>,
              \<lparr>csv_sku = Some ''SKU999'', csv_quantity = Num 4, csv_date = Some ''2024-03-06''\<rparr>]\<rparr>"

definition facts_with_miss :: "fact_sales_row frame" where
  "facts_with_miss =
     \<lparr>columns = [''DateKey'', ''ProductKey'', ''Quantity''],
      rows = [\<lparr>date_key = 20240305, fact_product_key = Some 7, fact_quantity = Num 10\<rparr>,
              \<lparr>date_key = 20240306, fact_product_key = None, fact_quantity = Num 4\<rparr>]\<rparr>"

text \<open>
  A raw inventory row whose Stock, 1e19, is beyond the 64-bit integers, with the clean
  row the code returns for it; and a raw sales row with the same Quantity, with its
  clean row.
\<close>

definition huge_stock_input :: "raw_inventory_row frame" where
  "huge_stock_input =
     \<lparr>columns = inventory_columns,
      rows = [\<lparr>raw_sku = Some ''SKU001'', raw_design = Some ''D1'', raw_category = Some ''BR1:Shirts'',
               raw_stock = Num 10000000000000000000, raw_size = Some ''M'',
               raw_color = Some ''Red''\<rparr>]\<rparr>"

definition huge_stock_output :: "inventory_row frame" where
  "huge_stock_output =
     \<lparr>columns = clean_inventory_columns,
      rows = [\<lparr>inv_sku = Some ''SKU001'', inv_design = Some ''D1'',
               inv_stock = - 9223372036854775808,
               inv_size = Some ''M'', inv_color = Some ''Red'',
               inv_brand_code = Some ''BR1'', inv_category_name = Some ''Shirts''\<rparr>]\<rparr>"

definition huge_quantity_sales :: "sales_csv_row frame" where
  "huge_quantity_sales =
     \<lparr>columns = sales_columns,
      rows = [\<lparr>csv_sku = Some ''SKU001'', csv_quantity = Num 10000000000000000000,
               csv_date = Some ''2024-03-05''\<rparr>]\<rparr>"

definition huge_quantity_clean :: "sales_row frame" where
  "huge_quantity_clean =
     \<lparr>columns = sales_columns,
      rows = [\<lparr>sale_sku = Some ''SKU001'', sale_quantity = 0,
               sale_date = \<lparr>year = 2024, month = 3, day = 5\<rparr>\<rparr>]\<rparr>"

text \<open>A clean sales row dated in the year 999, and its fact row.\<close>

definition old_sale :: "sales_csv_row frame" where
  "old_sale =
     \<lparr>columns = sales_columns,
      rows = [\<lparr>csv_sku = Some ''SKU001'', csv_quantity = Num 10, csv_date = Some ''0999-01-02''\<rparr>]\<rparr>"

definition old_sale_fact :: "fact_sales_row frame" where
  "old_sale_fact =
     \<lparr>columns = [''DateKey'', ''ProductKey'', ''Quantity''],
      rows = [\<lparr>date_key = 9990102, fact_product_key = Some 7, fact_quantity = Num 10\<rparr>]\<rparr>"

text \<open>
  A fact row comes from a merged sales row: it has the key the merge found and the
  quantity of the sales row, and its DateKey is the integer read from the
  \<^verbatim>\<open>%Y%m%d\<close> text of the Timestamp of the sale date.
\<close>

definition fact_of ::
  "date_parser \<Rightarrow> string option list \<Rightarrow> sales_csv_row \<times> int option \<Rightarrow> fact_sales_row \<Rightarrow> bool" where
  "fact_of parse col lk f \<longleftrightarrow>
     fact_product_key f = snd lk \<and> fact_quantity f = csv_quantity (fst lk) \<and>
     (\<exists>t d. csv_date (fst lk) = Some t \<and> to_timestamp parse col t = Some d \<and>
            int_of_str (strftime_Ymd d) = Some (date_key f))"

section \<open>Facts about the inventory cleaner\<close>

lemma zip_columns:
  "map (\<lambda>(r, b, c). h r b c) (zip rs (zip (map f rs) (map g rs))) = map (\<lambda>r. h r (f r) (g r)) rs"
  by (induction rs) auto

lemma clean_data_rows:
  assumes "clean_data df = (lg, Inr out)"
  shows "rows out =
           map (\<lambda>r. clean_row r (expand_cell 0 (split_category r)) (expand_cell 1 (split_category r)))
             (retained df)"
  using assms
  unfolding clean_data_def Let_def expand_get_def str_split_col_def split_category_def
  by (auto split: if_splits simp: zip_columns comp_def)

lemma clean_data_numeric:
  assumes "clean_data df = (lg, Inr out)"
  shows "\<not> list_ex (\<lambda>r. is_text (raw_stock r)) (retained df)"
  using assms
  unfolding clean_data_def Let_def
  by (auto split: if_splits sum.splits)

lemma clean_data_log:
  assumes "clean_data df = (lg, Inr out)"
  shows "lg = CleaningInventory #
           (if duplicated_all (rows out) \<noteq> [] then [DuplicateSkuDetected (duplicated_all (rows out))]
            else [])"
  using assms
  unfolding clean_data_def Let_def
  by (auto split: if_splits sum.splits)

lemma duplicates_distinct:
  "(\<forall>r\<in>set rs. length (filter (\<lambda>q. f q = f r) rs) \<le> 1) \<longleftrightarrow> distinct (map f rs)"
proof (induction rs)
  case Nil
  then show ?case by simp
next
  case (Cons a rs)
  have a: "length (filter (\<lambda>q. f q = f a) rs) = 0 \<longleftrightarrow> f a \<notin> f ` set rs"
    by (auto simp: filter_empty_conv image_iff)
  show ?case
  proof (cases "f a \<in> f ` set rs")
    case True
    then show ?thesis using a by auto
  next
    case False
    then have "\<And>r. r \<in> set rs \<Longrightarrow> filter (\<lambda>q. f q = f r) (a # rs) = filter (\<lambda>q. f q = f r) rs"
      by auto
    then show ?thesis using False a Cons.IH by auto
  qed
qed

lemma duplicated_all_empty: "duplicated_all rs = [] \<longleftrightarrow> distinct (map inv_sku rs)"
proof -
  have "duplicated_all rs = [] \<longleftrightarrow>
          (\<forall>r\<in>set rs. length (filter (\<lambda>q. inv_sku q = inv_sku r) rs) \<le> 1)"
    unfolding duplicated_all_def by (auto simp: filter_empty_conv not_less)
  then show ?thesis by (simp only: duplicates_distinct)
qed

lemma clean_data_duplicate_input:
  "clean_data duplicate_input =
     ([CleaningInventory, DuplicateSkuDetected (rows duplicate_output)], Inr duplicate_output)"
  by code_simp

lemma str_split_nonempty: "str_split sep s \<noteq> []"
  by (induction s) (auto split: list.splits)

lemma str_split_unfold:
  "str_split sep s = takeWhile (\<lambda>c. c \<noteq> sep) s #
     (if sep \<in> set s then str_split sep (tl (dropWhile (\<lambda>c. c \<noteq> sep) s)) else [])"
  by (induction s) (auto split: list.splits simp: str_split_nonempty)

lemma str_split_first: "str_split sep s ! 0 = takeWhile (\<lambda>c. c \<noteq> sep) s"
  by (subst str_split_unfold) simp

lemma str_split_length: "length (str_split sep s) = Suc (count_list s sep)"
  by (induction s) (auto split: list.splits simp: str_split_nonempty)

lemma str_split_second:
  assumes "sep \<in> set s"
  shows "str_split sep s ! Suc 0 = takeWhile (\<lambda>c. c \<noteq> sep) (tl (dropWhile (\<lambda>c. c \<noteq> sep) s))"
proof -
  have "str_split sep s ! Suc 0 = str_split sep (tl (dropWhile (\<lambda>c. c \<noteq> sep) s)) ! 0"
    using assms by (subst str_split_unfold) simp
  then show ?thesis by (simp only: str_split_first)
qed

lemma str_split_several: "Suc 0 < length (str_split sep s) \<longleftrightarrow> sep \<in> set s"
  using count_list_0_iff [of s sep] by (auto simp: str_split_length)

lemma expand_cell_first:
  "expand_cell 0 (Some (str_split sep s)) = Some (takeWhile (\<lambda>c. c \<noteq> sep) s)"
  unfolding expand_cell_def using str_split_nonempty [of sep s]
  by (simp add: str_split_first)

lemma expand_cell_second:
  "expand_cell (Suc 0) (Some (str_split sep s)) =
     (if sep \<in> set s then Some (takeWhile (\<lambda>c. c \<noteq> sep) (tl (dropWhile (\<lambda>c. c \<noteq> sep) s)))
      else None)"
  unfolding expand_cell_def
  by (simp add: str_split_several str_split_second)

lemma retained_category: "r \<in> set (retained df) \<Longrightarrow> \<exists>c. raw_category r = Some c"
  unfolding retained_def essential_present_def by auto

lemma expand_ncols_Max:
  "expand_ncols pss = Max (set (0 # map (\<lambda>p. case p of None \<Rightarrow> 1 | Some ps \<Rightarrow> length ps) pss))"
  unfolding expand_ncols_def by (simp only: Max.set_eq_fold)

lemma expand_ncols_single:
  assumes "pss \<noteq> []" and "\<forall>p\<in>set pss. \<exists>ps. p = Some ps \<and> length ps = 1"
  shows "expand_ncols pss = 1"
proof -
  have "(\<lambda>p. case p of None \<Rightarrow> Suc 0 | Some ps \<Rightarrow> length ps) ` set pss = {Suc 0}"
    using assms by (cases pss) (auto simp: image_iff split: option.splits)
  then show ?thesis unfolding expand_ncols_Max by simp
qed

lemma trunc_zero_clipped: "trunc_zero (max 0 x) = \<lfloor>max 0 x\<rfloor>"
  by (simp add: trunc_zero_def)

lemma stock_in_range:
  assumes "\<not> is_text c" and "\<forall>x. c = Num x \<longrightarrow> x < 9223372036854775808"
  shows "Some (astype_int (fillna 0 (clip_lower 0 (numeric c)))) = spec_normalize_stock c"
proof (cases c)
  case NaN
  then show ?thesis
    by (simp add: astype_int_def trunc_zero_def int64_min_def int64_max_def fillna_def
        clip_lower_def spec_normalize_stock_def)
next
  case (Num x)
  then have x: "x < 9223372036854775808" using assms(2) by simp
  have "\<lfloor>max 0 x\<rfloor> < 9223372036854775808" using x by (simp add: floor_less_iff)
  moreover have "0 \<le> \<lfloor>max 0 x\<rfloor>" by simp
  ultimately have "astype_int (max 0 x) = \<lfloor>max 0 x\<rfloor>"
    unfolding astype_int_def trunc_zero_clipped int64_min_def int64_max_def by simp
  then show ?thesis
    using Num by (simp add: fillna_def clip_lower_def spec_normalize_stock_def max_def)
next
  case (Str t)
  then show ?thesis using assms(1) by simp
qed

lemma clean_data_stock_in_range:
  assumes "clean_data df = (lg, Inr out)"
    and "\<forall>r\<in>set (retained df). \<forall>x. raw_stock r = Num x \<longrightarrow> x < 9223372036854775808"
  shows "map (\<lambda>c. Some (inv_stock c)) (rows out) =
           map (\<lambda>r. spec_normalize_stock (raw_stock r)) (retained df)"
proof -
  have r: "rows out =
             map (\<lambda>r. clean_row r (expand_cell 0 (split_category r)) (expand_cell 1 (split_category r)))
               (retained df)"
    using assms(1) by (rule clean_data_rows)
  have n: "\<forall>r\<in>set (retained df). \<not> is_text (raw_stock r)"
    using clean_data_numeric [OF assms(1)] by (simp add: list_ex_iff)
  show ?thesis
    unfolding r using n assms(2) by (simp add: clean_row_def comp_def stock_in_range)
qed

lemma clean_data_huge_stock:
  "clean_data huge_stock_input = ([CleaningInventory], Inr huge_stock_output)"
  by code_simp

lemma clean_data_scenario_a:
  "clean_data scenario_a =
     ([CleaningInventory],
      Inr \<lparr>columns = clean_inventory_columns,
           rows = [\<lparr>inv_sku = Some ''SKU001'', inv_design = Some ''D1'', inv_stock = 0,
                    inv_size = Some ''M'', inv_color = Some ''Red'',
                    inv_brand_code = Some ''BR1'', inv_category_name = Some ''Shirts''\<rparr>]\<rparr>)"
  by code_simp

lemma clean_data_nested_category:
  "clean_data nested_category_input = ([CleaningInventory], Inr nested_category_output)"
  by code_simp

section \<open>Facts about the sales cleaner\<close>

lemma clip_quantity_idem:
  "\<not> list_ex (\<lambda>r. sale_quantity r < 0) rs \<Longrightarrow> clip_quantity rs = rs"
  unfolding clip_quantity_def
  by (induction rs) (auto simp: max_def)

lemma quantities_clipped_eq:
  "quantities_clipped pd pn df = clip_quantity (normalized pd pn df)"
  unfolding quantities_clipped_def Let_def
  by (simp add: clip_quantity_idem)

lemma quantities_clipped_rows:
  "quantities_clipped pd pn df =
     map (\<lambda>(r, d). \<lparr>sale_sku = normalize_sku (csv_sku r),
                    sale_quantity = max 0 (quantity_int pn (csv_quantity r)),
                    sale_date = d\<rparr>) (dated pd df)"
  unfolding quantities_clipped_eq clip_quantity_def normalized_def
  by (auto simp: comp_def split: prod.splits)

lemma sales_clean_data_rows:
  assumes "sales_clean_data pd pn df_sales df_inventory = (lg, Inr out)"
  shows "rows out =
           filter (\<lambda>r. isin (sale_sku r) (valid_skus df_inventory)) (quantities_clipped pd pn df_sales)"
  using assms unfolding sales_clean_data_def Let_def
  by (auto split: if_splits)

lemma set_map_filter_Some: "set (List.map_filter f xs) = {y. Some y \<in> f ` set xs}"
  by (induction xs) (auto split: option.splits)

lemma isin_iff:
  "isin v (valid_skus dfi) \<longleftrightarrow> (\<exists>s. v = Some s \<and> Some s \<in> inv_sku ` set (rows dfi))"
  unfolding isin_def valid_skus_def
  by (auto simp: set_map_filter_Some split: option.splits)

lemma length_filter_compl: "length xs - length (filter P xs) = length (filter (\<lambda>x. \<not> P x) xs)"
  using sum_length_filter_compl [of P xs] by simp

lemma sales_quantity_nonnegative:
  assumes "sales_clean_data pd pn df_sales df_inventory = (lg, Inr out)"
  shows "\<forall>r\<in>set (rows out). 0 \<le> sale_quantity r"
  unfolding sales_clean_data_rows [OF assms] quantities_clipped_rows by auto

lemma quantity_unparseable: "pn s = None \<Longrightarrow> quantity_int pn (Str s) = 0"
  by (simp add: quantity_int_def to_numeric_def fillna_def astype_int_def trunc_zero_def
      int64_min_def int64_max_def)

lemma sales_clean_data_huge_quantity:
  "sales_clean_data iso_date no_number huge_quantity_sales one_product =
     ([CleaningSales, NegativeQuantities], Inr huge_quantity_clean)"
  by code_simp

lemma sales_clean_data_raw_sales:
  "sales_clean_data iso_date no_number raw_sales one_product =
     ([CleaningSales, NegativeQuantities, RowsDropped 1], Inr clean_sales)"
  by code_simp

section \<open>Facts about the star schema builder\<close>

lemma digit_value_digit_char: "n < 10 \<Longrightarrow> digit_value (digit_char n) = Some n"
  unfolding digit_value_def digit_char_def Let_def by simp

lemma digits_value_append:
  "digits_value acc (xs @ ys) =
     (case digits_value acc xs of None \<Rightarrow> None | Some a \<Rightarrow> digits_value a ys)"
  by (induction xs arbitrary: acc) (auto split: option.splits)

lemma digits_value_str_nat:
  "digits_value acc (str_nat n) = Some (acc * 10 ^ length (str_nat n) + n)"
proof (induction n arbitrary: acc rule: str_nat.induct)
  case (1 n)
  show ?case
  proof (cases "n < 10")
    case True
    then show ?thesis
      by (subst (1 2) str_nat.simps) (simp add: digit_value_digit_char)
  next
    case False
    have m: "n mod 10 < 10" by simp
    show ?thesis
      using False 1 [OF False]
      by (subst (1 2) str_nat.simps)
         (simp add: digits_value_append digit_value_digit_char [OF m] algebra_simps)
  qed
qed

lemma digits_value_zeros: "digits_value acc (replicate k CHR ''0'') = Some (acc * 10 ^ k)"
  by (induction k arbitrary: acc) (auto simp: digit_value_def)

lemma digits_value_zfill:
  "digits_value acc (zfill w (str_nat n)) = Some (acc * 10 ^ length (zfill w (str_nat n)) + n)"
  unfolding zfill_def
  by (simp add: digits_value_append digits_value_zeros digits_value_str_nat power_add)

lemma length_str_nat_pos: "0 < length (str_nat n)"
  by (subst str_nat.simps) simp

lemma length_str_nat_le: "n < 10 ^ k \<Longrightarrow> 0 < k \<Longrightarrow> length (str_nat n) \<le> k"
proof (induction n arbitrary: k rule: str_nat.induct)
  case (1 n)
  show ?case
  proof (cases "n < 10")
    case True
    then show ?thesis using 1(3) by (subst str_nat.simps) simp
  next
    case False
    then obtain j where k: "k = Suc j" and j: "0 < j"
      using 1(2,3) by (cases k; cases "k - 1") auto
    have "n div 10 < 10 ^ j" using 1(2) k by (simp add: less_mult_imp_div_less)
    then have "length (str_nat (n div 10)) \<le> j" using 1(1) [OF False _ j] by simp
    then show ?thesis using False k by (subst str_nat.simps) simp
  qed
qed

lemma length_zfill_str_nat: "n < 10 ^ w \<Longrightarrow> 0 < w \<Longrightarrow> length (zfill w (str_nat n)) = w"
  unfolding zfill_def using length_str_nat_le [of n w] by simp

lemma calendar_date_bounds:
  assumes "calendar_date d"
  shows "1 \<le> month d" "month d \<le> 12" "1 \<le> day d" "day d \<le> 31"
  using assms unfolding calendar_date_def days_in_month_def
  by (auto split: if_splits)

lemma strftime_Ymd_value:
  assumes "calendar_date d"
  shows "int_of_str (strftime_Ymd d) =
           Some (int (year d) * 10000 + int (month d) * 100 + int (day d))"
proof -
  note b = calendar_date_bounds [OF assms]
  have m: "length (zfill 2 (str_nat (month d))) = 2" using b by (intro length_zfill_str_nat) auto
  have a: "length (zfill 2 (str_nat (day d))) = 2" using b by (intro length_zfill_str_nat) auto
  have v: "digits_value 0 (strftime_Ymd d) = Some ((year d * 10 ^ 2 + month d) * 10 ^ 2 + day d)"
    unfolding strftime_Ymd_def
    by (simp add: digits_value_append digits_value_zfill m a)
  have "strftime_Ymd d \<noteq> []" unfolding strftime_Ymd_def using m by auto
  then have "int_of_str (strftime_Ymd d) = Some (int ((year d * 10 ^ 2 + month d) * 10 ^ 2 + day d))"
    unfolding int_of_str_def using v by simp
  then show ?thesis by simp
qed

lemma sequence_Inr: "sequence xs = Inr vs \<Longrightarrow> xs = map Inr vs"
  by (induction xs arbitrary: vs) (auto split: sum.splits)

lemma to_timestamp_calendar: "to_timestamp parse col s = Some d \<Longrightarrow> calendar_date d"
  unfolding to_timestamp_def by (auto split: option.splits if_splits)

lemma date_key_of_Inr:
  "date_key_of v = Inr k \<Longrightarrow> \<exists>d. v = Some d \<and> int_of_str (strftime_Ymd d) = Some k"
  unfolding date_key_of_def by (auto split: option.splits)

lemma to_datetime_Inr: "to_datetime parse col = Inr dates \<Longrightarrow> dates = to_datetime_coerce parse col"
  unfolding to_datetime_def by (auto split: if_splits)

lemma build_fact_sales_rows:
  assumes "build_fact_sales parse df_sales dp = Inr facts"
  shows "list_all2
           (fact_of parse (map (\<lambda>(l, k). csv_date l) (merge_left (rows df_sales) (rows dp))))
           (merge_left (rows df_sales) (rows dp)) (rows facts)"
proof -
  let ?m = "merge_left (rows df_sales) (rows dp)"
  let ?col = "map (\<lambda>(l, k). csv_date l) ?m"
  obtain dates keys where d: "to_datetime parse ?col = Inr dates"
    and k: "sequence (map date_key_of dates) = Inr keys"
    and r: "rows facts = map (\<lambda>(dk, (l, k)). \<lparr>date_key = dk, fact_product_key = k,
                                                       fact_quantity = csv_quantity l\<rparr>) (zip keys ?m)"
    using assms unfolding build_fact_sales_def Let_def
    by (auto split: if_splits sum.splits)
  have dates: "dates = to_datetime_coerce parse ?col" using d by (rule to_datetime_Inr)
  have ks: "map date_key_of dates = map Inr keys" using k by (rule sequence_Inr)
  have len: "length keys = length ?m"
    using arg_cong [OF ks, of length] by (simp add: dates to_datetime_coerce_def)
  show ?thesis
  proof (rule list_all2_all_nthI)
    show "length ?m = length (rows facts)" by (simp add: r len)
  next
    fix n assume n: "n < length ?m"
    obtain l k where lk: "?m ! n = (l, k)" by (cases "?m ! n")
    have f: "rows facts ! n = \<lparr>date_key = keys ! n, fact_product_key = k, fact_quantity = csv_quantity l\<rparr>"
      using n len lk by (simp add: r)
    have "date_key_of (dates ! n) = Inr (keys ! n)"
      using arg_cong [OF ks, of "\<lambda>xs. xs ! n"] n len by (simp add: dates to_datetime_coerce_def)
    then obtain d where dn: "dates ! n = Some d" and i: "int_of_str (strftime_Ymd d) = Some (keys ! n)"
      using date_key_of_Inr by blast
    have nl: "n < length ?col" using n by simp
    have cn: "?col ! n = csv_date l" using n lk by simp
    have "dates ! n = (case ?col ! n of None \<Rightarrow> None | Some s \<Rightarrow> to_timestamp parse ?col s)"
      unfolding dates to_datetime_coerce_def by (simp only: nth_map [OF nl])
    then have "dates ! n = (case csv_date l of None \<Rightarrow> None | Some s \<Rightarrow> to_timestamp parse ?col s)"
      by (simp only: cn)
    then obtain t where t: "csv_date l = Some t" and p: "to_timestamp parse ?col t = Some d"
      using dn by (auto split: option.splits)
    show "fact_of parse ?col (?m ! n) (rows facts ! n)"
      unfolding fact_of_def lk f using t p i by simp
  qed
qed

lemma merge_left_miss:
  assumes "l \<in> set ls" and "csv_sku l \<notin> dp_sku ` set rs"
  shows "(l, None) \<in> set (merge_left ls rs)"
proof -
  have "filter (\<lambda>r. dp_sku r = csv_sku l) rs = []"
    using assms(2) by (force simp: filter_empty_conv image_iff)
  then show ?thesis unfolding merge_left_def using assms(1) by force
qed

lemma merge_left_length: "length ls \<le> length (merge_left ls rs)"
proof (induction ls)
  case Nil
  then show ?case by (simp add: merge_left_def)
next
  case (Cons l ls)
  have "merge_left (l # ls) rs =
          (case filter (\<lambda>r. dp_sku r = csv_sku l) rs of
             [] \<Rightarrow> [(l, None)]
           | ms \<Rightarrow> map (\<lambda>r. (l, Some (product_key r))) ms) @ merge_left ls rs"
    by (simp add: merge_left_def)
  then show ?case using Cons by (auto split: list.splits)
qed

lemma build_dim_product_rows:
  assumes "build_dim_product df = Inr dp"
  shows "rows dp =
           map (\<lambda>(k, r). \<lparr>product_key = k, dp_sku = inv_sku r, dp_design = inv_design r,
                          dp_size = inv_size r, dp_color = inv_color r,
                          dp_brand_code = inv_brand_code r,
                          dp_category_name = inv_category_name r\<rparr>)
             (zip [1..int (length (rows df))] (rows df))"
  using assms unfolding build_dim_product_def Let_def by (auto split: if_splits)

lemma upto_seven: "[1..7::int] = [1, 2, 3, 4, 5, 6, 7]"
  by (simp add: upto.simps)

lemma build_dim_product_seven: "build_dim_product seven_products = Inr seven_dim"
proof -
  have "length (rows seven_products) = 7" by (simp add: seven_products_def)
  then show ?thesis
    unfolding build_dim_product_def Let_def
    by (simp add: upto_seven seven_products_def seven_dim_def dim_columns_def
        clean_inventory_columns_def)
qed

lemma iso_date_march_5: "iso_date col ''2024-03-05'' = Some \<lparr>year = 2024, month = 3, day = 5\<rparr>"
  by code_simp

lemma iso_date_march_6: "iso_date col ''2024-03-06'' = Some \<lparr>year = 2024, month = 3, day = 6\<rparr>"
  by code_simp

lemma valid_march_5: "calendar_date \<lparr>year = 2024, month = 3, day = 5\<rparr>"
  by (simp add: calendar_date_def days_in_month_def)

lemma valid_march_6: "calendar_date \<lparr>year = 2024, month = 3, day = 6\<rparr>"
  by (simp add: calendar_date_def days_in_month_def)

lemma to_timestamp_march_5:
  "to_timestamp iso_date col ''2024-03-05'' = Some \<lparr>year = 2024, month = 3, day = 5\<rparr>"
  unfolding to_timestamp_def by (simp add: iso_date_march_5 valid_march_5)

lemma to_timestamp_march_6:
  "to_timestamp iso_date col ''2024-03-06'' = Some \<lparr>year = 2024, month = 3, day = 6\<rparr>"
  unfolding to_timestamp_def by (simp add: iso_date_march_6 valid_march_6)

lemma date_key_march_5: "date_key_of (Some \<lparr>year = 2024, month = 3, day = 5\<rparr>) = Inr 20240305"
  unfolding date_key_of_def using strftime_Ymd_value [OF valid_march_5] by simp

lemma date_key_march_6: "date_key_of (Some \<lparr>year = 2024, month = 3, day = 6\<rparr>) = Inr 20240306"
  unfolding date_key_of_def using strftime_Ymd_value [OF valid_march_6] by simp

lemma build_fact_sales_scenario_d:
  assumes "set [''ProductKey'', ''SKU Code''] \<subseteq> set (columns dp)"
    and "filter (\<lambda>r. dp_sku r = Some ''SKU001'') (rows dp) = [r]"
    and "product_key r = 7"
  shows "build_fact_sales iso_date scenario_d dp = Inr scenario_d_fact"
proof -
  let ?l = "\<lparr>csv_sku = Some ''SKU001'', csv_quantity = Num 10, csv_date = Some ''2024-03-05''\<rparr>"
  have m: "merge_left (rows scenario_d) (rows dp) = [(?l, Some 7)]"
    unfolding merge_left_def scenario_d_def using assms(2,3) by simp
  have d: "to_datetime iso_date [Some ''2024-03-05''] = Inr [Some \<lparr>year = 2024, month = 3, day = 5\<rparr>]"
    unfolding to_datetime_def to_datetime_coerce_def by (simp add: to_timestamp_march_5)
  have c: "columns scenario_d = sales_columns" by (simp add: scenario_d_def)
  have f: "filter (\<lambda>c. c \<notin> set (columns dp)) [''ProductKey'', ''SKU Code''] = []"
    using assms(1) by simp
  show ?thesis
    unfolding build_fact_sales_def Let_def m f c
    by (simp add: d date_key_march_5 sales_columns_def scenario_d_fact_def)
qed

lemma build_fact_sales_with_miss:
  "build_fact_sales iso_date sales_with_miss seven_dim = Inr facts_with_miss"
proof -
  let ?l1 = "\<lparr>csv_sku = Some ''SKU001'', csv_quantity = Num 10, csv_date = Some ''2024-03-05''\<rparr>"
  let ?l2 = "\<lparr>csv_sku = Some ''SKU999'', csv_quantity = Num 4, csv_date = Some ''2024-03-06''\<rparr>"
  have m: "merge_left (rows sales_with_miss) (rows seven_dim) = [(?l1, Some 7), (?l2, None)]"
    unfolding merge_left_def sales_with_miss_def seven_dim_def by simp
  have d: "to_datetime iso_date [Some ''2024-03-05'', Some ''2024-03-06''] =
             Inr [Some \<lparr>year = 2024, month = 3, day = 5\<rparr>, Some \<lparr>year = 2024, month = 3, day = 6\<rparr>]"
    unfolding to_datetime_def to_datetime_coerce_def
    by (simp add: to_timestamp_march_5 to_timestamp_march_6)
  have c: "columns sales_with_miss = sales_columns" by (simp add: sales_with_miss_def)
  have f: "filter (\<lambda>c. c \<notin> set (columns seven_dim)) [''ProductKey'', ''SKU Code''] = []"
    by (simp add: seven_dim_def dim_columns_def)
  show ?thesis
    unfolding build_fact_sales_def Let_def m f c
    by (simp add: d date_key_march_5 date_key_march_6 sales_columns_def facts_with_miss_def)
qed

lemma iso_date_old: "iso_date col ''0999-01-02'' = Some \<lparr>year = 999, month = 1, day = 2\<rparr>"
  by code_simp

lemma valid_old: "calendar_date \<lparr>year = 999, month = 1, day = 2\<rparr>"
  by code_simp

lemma to_timestamp_old:
  "to_timestamp iso_date col ''0999-01-02'' = Some \<lparr>year = 999, month = 1, day = 2\<rparr>"
  unfolding to_timestamp_def by (simp add: iso_date_old valid_old del: One_nat_def)

lemma date_key_old: "date_key_of (Some \<lparr>year = 999, month = 1, day = 2\<rparr>) = Inr 9990102"
  unfolding date_key_of_def using strftime_Ymd_value [OF valid_old] by (simp del: One_nat_def)

lemma build_fact_sales_old_sale: "build_fact_sales iso_date old_sale seven_dim = Inr old_sale_fact"
proof -
  let ?l = "\<lparr>csv_sku = Some ''SKU001'', csv_quantity = Num 10, csv_date = Some ''0999-01-02''\<rparr>"
  have m: "merge_left (rows old_sale) (rows seven_dim) = [(?l, Some 7)]"
    unfolding merge_left_def old_sale_def seven_dim_def by simp
  have d: "to_datetime iso_date [Some ''0999-01-02''] = Inr [Some \<lparr>year = 999, month = 1, day = 2\<rparr>]"
    unfolding to_datetime_def to_datetime_coerce_def by (simp add: to_timestamp_old del: One_nat_def)
  have c: "columns old_sale = sales_columns" by (simp add: old_sale_def)
  have f: "filter (\<lambda>c. c \<notin> set (columns seven_dim)) [''ProductKey'', ''SKU Code''] = []"
    by (simp add: seven_dim_def dim_columns_def)
  show ?thesis
    unfolding build_fact_sales_def Let_def m f c
    by (simp add: d date_key_old sales_columns_def old_sale_fact_def del: One_nat_def)
qed

section \<open>The claims\<close>

text \<open>
  C1. Every row of the clean sales table returned by \<^verbatim>\<open>SalesCleaner.clean_data\<close> has a
  SkuCode that is one of the SkuCode values of the clean inventory table. The rows
  returned are exactly the normalised rows whose SkuCode is in that set; the others are
  removed, and their number is logged in a warning whenever it is positive.
\<close>

theorem sales_referential_filter:
  assumes "sales_clean_data pd pn df_sales df_inventory = (lg, Inr out)"
  shows "(\<forall>r\<in>set (rows out). \<exists>s. sale_sku r = Some s \<and> Some s \<in> inv_sku ` set (rows df_inventory)) \<and>
         rows out =
           filter (\<lambda>r. sale_sku r \<in> inv_sku ` set (rows df_inventory) \<and> sale_sku r \<noteq> None)
             (quantities_clipped pd pn df_sales) \<and>
         (\<forall>n. RowsDropped n \<in> set lg \<longleftrightarrow>
               0 < n \<and>
               n = length (filter (\<lambda>r. \<not> (sale_sku r \<in> inv_sku ` set (rows df_inventory) \<and>
                                           sale_sku r \<noteq> None))
                             (quantities_clipped pd pn df_sales)))"
proof -
  let ?valid = "\<lambda>r. sale_sku r \<in> inv_sku ` set (rows df_inventory) \<and> sale_sku r \<noteq> None"
  have v: "(\<lambda>r. isin (sale_sku r) (valid_skus df_inventory)) = ?valid"
    by (auto simp: isin_iff fun_eq_iff)
  have r: "rows out = filter ?valid (quantities_clipped pd pn df_sales)"
    using sales_clean_data_rows [OF assms] by (simp only: v)
  have 1: "\<forall>r\<in>set (rows out). \<exists>s. sale_sku r = Some s \<and> Some s \<in> inv_sku ` set (rows df_inventory)"
    unfolding r by auto
  have l: "\<forall>n. RowsDropped n \<in> set lg \<longleftrightarrow>
               0 < n \<and> n = length (quantities_clipped pd pn df_sales) -
                            length (filter ?valid (quantities_clipped pd pn df_sales))"
    using assms unfolding sales_clean_data_def Let_def v
    by (auto split: if_splits)
  have l': "\<forall>n. RowsDropped n \<in> set lg \<longleftrightarrow>
               0 < n \<and> n = length (filter (\<lambda>r. \<not> ?valid r) (quantities_clipped pd pn df_sales))"
    using l unfolding length_filter_compl .
  show ?thesis using 1 r l' by blast
qed

theorem sales_referential_filter_witness:
  "sales_clean_data iso_date no_number raw_sales one_product =
     ([CleaningSales, NegativeQuantities, RowsDropped 1], Inr clean_sales) \<and>
   rows clean_sales =
     filter (\<lambda>r. sale_sku r \<in> inv_sku ` set (rows one_product) \<and> sale_sku r \<noteq> None)
       (quantities_clipped iso_date no_number raw_sales) \<and>
   1 = length (filter (\<lambda>r. \<not> (sale_sku r \<in> inv_sku ` set (rows one_product) \<and> sale_sku r \<noteq> None))
                 (quantities_clipped iso_date no_number raw_sales))"
proof -
  note t = sales_referential_filter [OF sales_clean_data_raw_sales]
  from t have a: "rows clean_sales =
      filter (\<lambda>r. sale_sku r \<in> inv_sku ` set (rows one_product) \<and> sale_sku r \<noteq> None)
        (quantities_clipped iso_date no_number raw_sales)"
    by blast
  from t have "RowsDropped 1 \<in> set [CleaningSales, NegativeQuantities, RowsDropped 1] \<longleftrightarrow>
      0 < (1::nat) \<and>
      1 = length (filter (\<lambda>r. \<not> (sale_sku r \<in> inv_sku ` set (rows one_product) \<and> sale_sku r \<noteq> None))
                    (quantities_clipped iso_date no_number raw_sales))"
    by blast
  then have b: "1 = length (filter (\<lambda>r. \<not> (sale_sku r \<in> inv_sku ` set (rows one_product) \<and>
                                             sale_sku r \<noteq> None))
                    (quantities_clipped iso_date no_number raw_sales))"
    by simp
  show ?thesis using sales_clean_data_raw_sales a b by blast
qed

text \<open>
  C2, as the code has it. \<^verbatim>\<open>InventoryCleaner.clean_data\<close> keeps every retained row,
  also the rows that share a normalised SkuCode. The SkuCode values of its result are
  pairwise distinct exactly when it logs no duplicate warning; otherwise it logs the
  duplicated rows, and \<^verbatim>\<open>verification_data\<close> logs the duplicate error.
\<close>

theorem clean_data_duplicates_reported:
  assumes "clean_data df = (lg, Inr out)"
  shows "length (rows out) = length (retained df) \<and>
         map inv_sku (rows out) = map raw_sku (retained df) \<and>
         (distinct (map inv_sku (rows out)) \<longleftrightarrow> lg = [CleaningInventory]) \<and>
         (\<not> distinct (map inv_sku (rows out)) \<longleftrightarrow>
            lg = [CleaningInventory, DuplicateSkuDetected (duplicated_all (rows out))]) \<and>
         (DuplicateSkuError \<in> set (verification_data out) \<longleftrightarrow> \<not> distinct (map inv_sku (rows out)))"
proof -
  have r: "rows out =
             map (\<lambda>r. clean_row r (expand_cell 0 (split_category r)) (expand_cell 1 (split_category r)))
               (retained df)"
    using assms by (rule clean_data_rows)
  have l: "lg = CleaningInventory #
             (if duplicated_all (rows out) \<noteq> [] then [DuplicateSkuDetected (duplicated_all (rows out))]
              else [])"
    using assms by (rule clean_data_log)
  have 1: "length (rows out) = length (retained df)" by (simp add: r)
  have 2: "map inv_sku (rows out) = map raw_sku (retained df)"
    by (simp add: r clean_row_def comp_def)
  have 3: "distinct (map inv_sku (rows out)) \<longleftrightarrow> lg = [CleaningInventory]"
    using l duplicated_all_empty [of "rows out"] by (auto split: if_splits)
  have 4: "\<not> distinct (map inv_sku (rows out)) \<longleftrightarrow>
            lg = [CleaningInventory, DuplicateSkuDetected (duplicated_all (rows out))]"
    using l duplicated_all_empty [of "rows out"] by (auto split: if_splits)
  have 5: "DuplicateSkuError \<in> set (verification_data out) \<longleftrightarrow> \<not> distinct (map inv_sku (rows out))"
    unfolding verification_data_def Let_def by (auto split: if_splits)
  from 1 2 3 4 5 show ?thesis by blast
qed

theorem clean_data_duplicates_reported_witness:
  "clean_data duplicate_input =
     ([CleaningInventory, DuplicateSkuDetected (rows duplicate_output)], Inr duplicate_output) \<and>
   length (rows duplicate_output) = length (retained duplicate_input) \<and>
   \<not> distinct (map inv_sku (rows duplicate_output)) \<and>
   DuplicateSkuError \<in> set (verification_data duplicate_output)"
proof -
  have d: "\<not> distinct (map inv_sku (rows duplicate_output))"
    by (simp add: duplicate_output_def)
  show ?thesis
    using clean_data_duplicates_reported [OF clean_data_duplicate_input]
      clean_data_duplicate_input d
    by simp
qed

text \<open>
  The claim C2 as stated fails: two raw rows whose SKUs normalise to the same code are
  both in the clean table.
\<close>

theorem clean_data_distinct_counterexample:
  "clean_data duplicate_input =
     ([CleaningInventory, DuplicateSkuDetected (rows duplicate_output)], Inr duplicate_output) \<and>
   map inv_sku (rows duplicate_output) = [Some ''SKU-1'', Some ''SKU-1''] \<and>
   \<not> distinct (map inv_sku (rows duplicate_output))"
proof -
  have "map inv_sku (rows duplicate_output) = [Some ''SKU-1'', Some ''SKU-1'']"
    by (simp add: duplicate_output_def)
  then show ?thesis using clean_data_duplicate_input by simp
qed

text \<open>
  C3, as the code has it. \<^verbatim>\<open>clean_data\<close> splits the Category of every retained row on
  every separator. BrandCode is the trimmed text on the left of the first separator (the
  whole text when there is none). CategoryName is the trimmed text between the first
  separator and the second (up to the end when there is one separator only), and is
  missing when the Category has no separator; what follows a second separator is in
  neither column.
\<close>

theorem clean_data_category_split:
  assumes "clean_data df = (lg, Inr out)"
  shows "list_all2
           (\<lambda>r c. \<exists>t. raw_category r = Some t \<and>
                inv_brand_code c = Some (strip (takeWhile (\<lambda>x. x \<noteq> CHR '':'') t)) \<and>
                inv_category_name c =
                  (if CHR '':'' \<in> set t
                   then Some (strip (takeWhile (\<lambda>x. x \<noteq> CHR '':'')
                                       (tl (dropWhile (\<lambda>x. x \<noteq> CHR '':'') t))))
                   else None))
           (retained df) (rows out)"
proof -
  have r: "rows out =
             map (\<lambda>r. clean_row r (expand_cell 0 (split_category r)) (expand_cell 1 (split_category r)))
               (retained df)"
    using assms by (rule clean_data_rows)
  show ?thesis
    unfolding r list_all2_map2
  proof (rule list_all2_all_nthI)
    show "length (retained df) = length (retained df)" by simp
  next
    fix n assume "n < length (retained df)"
    then have "retained df ! n \<in> set (retained df)" by simp
    then obtain t where t: "raw_category (retained df ! n) = Some t"
      using retained_category by blast
    show "\<exists>t. raw_category (retained df ! n) = Some t \<and>
            inv_brand_code (clean_row (retained df ! n) (expand_cell 0 (split_category (retained df ! n)))
                 (expand_cell 1 (split_category (retained df ! n)))) =
              Some (strip (takeWhile (\<lambda>x. x \<noteq> CHR '':'') t)) \<and>
            inv_category_name (clean_row (retained df ! n) (expand_cell 0 (split_category (retained df ! n)))
                 (expand_cell 1 (split_category (retained df ! n)))) =
              (if CHR '':'' \<in> set t
               then Some (strip (takeWhile (\<lambda>x. x \<noteq> CHR '':'') (tl (dropWhile (\<lambda>x. x \<noteq> CHR '':'') t))))
               else None)"
      using t by (simp add: clean_row_def split_category_def expand_cell_first expand_cell_second)
  qed
qed

theorem clean_data_category_split_witness:
  "clean_data nested_category_input = ([CleaningInventory], Inr nested_category_output) \<and>
   list_all2
     (\<lambda>r c. \<exists>t. raw_category r = Some t \<and>
          inv_brand_code c = Some (strip (takeWhile (\<lambda>x. x \<noteq> CHR '':'') t)) \<and>
          inv_category_name c =
            (if CHR '':'' \<in> set t
             then Some (strip (takeWhile (\<lambda>x. x \<noteq> CHR '':'')
                                 (tl (dropWhile (\<lambda>x. x \<noteq> CHR '':'') t))))
             else None))
     (retained nested_category_input) (rows nested_category_output)"
  using clean_data_category_split [OF clean_data_nested_category] clean_data_nested_category
  by blast

text \<open>
  The claim C3 as stated fails on a Category with two separators: the specification
  puts \<open>Mens:Shirts\<close> in CategoryName, the code puts \<open>Mens\<close> there.
\<close>

theorem clean_data_split_first_counterexample:
  "clean_data nested_category_input = ([CleaningInventory], Inr nested_category_output) \<and>
   map raw_category (retained nested_category_input) = [Some ''BR1:Mens:Shirts''] \<and>
   map inv_category_name (rows nested_category_output) = [Some ''Mens''] \<and>
   spec_split_first ''BR1:Mens:Shirts'' = (''BR1'', ''Mens:Shirts'')"
proof -
  have a: "map raw_category (retained nested_category_input) = [Some ''BR1:Mens:Shirts'']"
    by code_simp
  have b: "map inv_category_name (rows nested_category_output) = [Some ''Mens'']"
    by (simp add: nested_category_output_def)
  have c: "spec_split_first ''BR1:Mens:Shirts'' = (''BR1'', ''Mens:Shirts'')"
    by code_simp
  show ?thesis using clean_data_nested_category a b c by blast
qed

text \<open>
  C4. When the raw inventory file lacks at least one of the required columns,
  \<^verbatim>\<open>InventoryCleaner.run\<close> ends with the error that carries exactly the required
  columns that are missing; the log holds the loading and the error only, so neither the
  cleaning nor the saving is reached, and the clean files are as they were.
\<close>

theorem run_missing_columns:
  assumes "raw_files (input_path self) = Some df"
    and "\<not> set required_cols \<subseteq> set (columns df)"
  shows "run self raw_files clean_files =
           ([LoadingRawInventory (input_path self),
             MissingColumnsError (filter (\<lambda>c. c \<notin> set (columns df)) required_cols)],
            Some (MissingColumns (filter (\<lambda>c. c \<notin> set (columns df)) required_cols)),
            clean_files) \<and>
         filter (\<lambda>c. c \<notin> set (columns df)) required_cols \<noteq> [] \<and>
         set (filter (\<lambda>c. c \<notin> set (columns df)) required_cols) = set required_cols - set (columns df)"
proof -
  let ?missing = "filter (\<lambda>c. c \<notin> set (columns df)) required_cols"
  have m: "?missing \<noteq> []"
    using assms(2) by (auto simp: filter_empty_conv)
  have c: "check_required_columns df required_cols =
             ([MissingColumnsError ?missing], Some (MissingColumns ?missing))"
    unfolding check_required_columns_def Let_def using m by simp
  have l: "load_data self raw_files = ([LoadingRawInventory (input_path self)], Inr df)"
    unfolding load_data_def using assms(1) by simp
  have r: "run self raw_files clean_files =
             ([LoadingRawInventory (input_path self), MissingColumnsError ?missing],
              Some (MissingColumns ?missing), clean_files)"
    unfolding run_def by (simp add: l c)
  have s: "set ?missing = set required_cols - set (columns df)" by auto
  from r m s show ?thesis by blast
qed

theorem run_missing_columns_witness:
  "run the_cleaner [input_path the_cleaner \<mapsto> missing_stock_input] Map.empty =
     ([LoadingRawInventory (input_path the_cleaner), MissingColumnsError [''Stock'']],
      Some (MissingColumns [''Stock'']), Map.empty)"
proof -
  have a: "[input_path the_cleaner \<mapsto> missing_stock_input] (input_path the_cleaner) =
             Some missing_stock_input"
    by simp
  have b: "\<not> set required_cols \<subseteq> set (columns missing_stock_input)"
    by (simp add: required_cols_def missing_stock_input_def)
  have c: "filter (\<lambda>c. c \<notin> set (columns missing_stock_input)) required_cols = [''Stock'']"
    by (simp add: required_cols_def missing_stock_input_def)
  show ?thesis
    using run_missing_columns
      [where raw_files = "[input_path the_cleaner \<mapsto> missing_stock_input]"
         and self = the_cleaner and df = missing_stock_input and clean_files = Map.empty, OF a b]
    unfolding c by blast
qed

text \<open>
  C5. The row of scenario A yields Stock 0, BrandCode BR1 and CategoryName Shirts, as
  the claim says. On a Stock of 1e19 the code departs from the claim: the value is
  neither negative nor missing, the claim makes it the integer 10000000000000000000,
  and \<^verbatim>\<open>clean_data\<close> returns the Stock -9223372036854775808, since the cast to 64
  bits follows the clip.
\<close>

theorem clean_data_stock_overflow:
  "clean_data scenario_a =
     ([CleaningInventory],
      Inr \<lparr>columns = clean_inventory_columns,
           rows = [\<lparr>inv_sku = Some ''SKU001'', inv_design = Some ''D1'', inv_stock = 0,
                    inv_size = Some ''M'', inv_color = Some ''Red'',
                    inv_brand_code = Some ''BR1'', inv_category_name = Some ''Shirts''\<rparr>]\<rparr>) \<and>
   clean_data huge_stock_input = ([CleaningInventory], Inr huge_stock_output) \<and>
   map raw_stock (retained huge_stock_input) = [Num 10000000000000000000] \<and>
   map inv_stock (rows huge_stock_output) = [- 9223372036854775808] \<and>
   spec_normalize_stock (Num 10000000000000000000) = Some 10000000000000000000"
proof -
  have a: "map raw_stock (retained huge_stock_input) = [Num 10000000000000000000]"
    by code_simp
  have b: "map inv_stock (rows huge_stock_output) = [- 9223372036854775808]"
    by (simp add: huge_stock_output_def)
  have c: "spec_normalize_stock (Num 10000000000000000000) = Some 10000000000000000000"
    by (simp add: spec_normalize_stock_def)
  show ?thesis using clean_data_scenario_a clean_data_huge_stock a b c by blast
qed

text \<open>
  C10. When the rows retained are not empty and no Category among them has a separator,
  \<^verbatim>\<open>clean_data\<close> raises an exception; on a frame with the required columns and a
  numeric Stock it is the KeyError of the lookup of column 1 of the split, which has
  column 0 only.
\<close>

theorem clean_data_no_separator:
  assumes "retained df \<noteq> []"
    and "\<forall>r\<in>set (retained df). \<forall>t. raw_category r = Some t \<longrightarrow> CHR '':'' \<notin> set t"
  shows "(\<exists>e. snd (clean_data df) = Inl e) \<and>
         (set [''SKU Code'', ''Design No.'', ''Category'', ''Stock''] \<subseteq> set (columns df) \<and>
          \<not> list_ex (\<lambda>r. is_text (raw_stock r)) (retained df) \<longrightarrow>
          clean_data df = ([CleaningInventory], Inl (KeyError [''1''])))"
proof -
  let ?pss = "str_split_col CHR '':'' (map raw_category (retained df))"
  have "\<forall>p\<in>set ?pss. \<exists>ps. p = Some ps \<and> length ps = 1"
  proof
    fix p assume "p \<in> set ?pss"
    then obtain r where r: "r \<in> set (retained df)"
      and p: "p = map_option (str_split CHR '':'') (raw_category r)"
      unfolding str_split_col_def by auto
    obtain t where t: "raw_category r = Some t" using r retained_category by blast
    then have "CHR '':'' \<notin> set t" using assms(2) r by blast
    then have "length (str_split CHR '':'' t) = 1" by (simp add: str_split_length)
    then show "\<exists>ps. p = Some ps \<and> length ps = 1" using p t by simp
  qed
  moreover have "?pss \<noteq> []" using assms(1) by (simp add: str_split_col_def)
  ultimately have n: "expand_ncols ?pss = 1" by (rule expand_ncols_single [rotated])
  have 0: "expand_get ?pss 0 ''0'' = Inr (map (expand_cell 0) ?pss)"
    by (simp add: expand_get_def n)
  have 1: "expand_get ?pss (Suc 0) ''1'' = Inl (KeyError [''1''])"
    by (simp add: expand_get_def n)
  have a: "\<exists>e. snd (clean_data df) = Inl e"
    unfolding clean_data_def Let_def by (simp add: 0 1)
  have b: "set [''SKU Code'', ''Design No.'', ''Category'', ''Stock''] \<subseteq> set (columns df) \<and>
          \<not> list_ex (\<lambda>r. is_text (raw_stock r)) (retained df) \<longrightarrow>
          clean_data df = ([CleaningInventory], Inl (KeyError [''1'']))"
    unfolding clean_data_def Let_def by (simp add: 0 1)
  from a b show ?thesis by blast
qed

theorem clean_data_no_separator_witness:
  "retained no_separator_input \<noteq> [] \<and>
   map raw_category (retained no_separator_input) = [Some ''Shirts''] \<and>
   clean_data no_separator_input = ([CleaningInventory], Inl (KeyError [''1'']))"
proof -
  have r: "retained no_separator_input =
             [\<lparr>raw_sku = Some ''SKU001'', raw_design = Some ''D1'', raw_category = Some ''Shirts'',
               raw_stock = Num 2, raw_size = Some ''M'', raw_color = Some ''Red''\<rparr>]"
    by code_simp
  have a: "retained no_separator_input \<noteq> []" by (simp add: r)
  have b: "\<forall>r\<in>set (retained no_separator_input). \<forall>t. raw_category r = Some t \<longrightarrow> CHR '':'' \<notin> set t"
    by (simp add: r)
  have c: "set [''SKU Code'', ''Design No.'', ''Category'', ''Stock''] \<subseteq> set (columns no_separator_input)"
    by (simp add: no_separator_input_def inventory_columns_def)
  have d: "\<not> list_ex (\<lambda>r. is_text (raw_stock r)) (retained no_separator_input)"
    by (simp add: r)
  have e: "map raw_category (retained no_separator_input) = [Some ''Shirts'']"
    by (simp add: r)
  show ?thesis
    using clean_data_no_separator [OF a b] a c d e by blast
qed

text \<open>
  C6. On a clean inventory table of N rows that has the six descriptive columns,
  \<^verbatim>\<open>build_dim_product\<close> returns a table of N rows whose ProductKey column is the
  sequence 1, ..., N, without gap or repeat, the row at position i keeping the product
  of the row at position i of the input.
\<close>

theorem build_dim_product_keys:
  "(build_dim_product df = Inr dp \<longrightarrow>
      map product_key (rows dp) = [1..int (length (rows df))] \<and>
      length (rows dp) = length (rows df) \<and>
      distinct (map product_key (rows dp)) \<and>
      map dp_sku (rows dp) = map inv_sku (rows df) \<and>
      (\<forall>i<length (rows df). product_key (rows dp ! i) = int i + 1 \<and>
                              dp_sku (rows dp ! i) = inv_sku (rows df ! i))) \<and>
   (set dim_columns \<subseteq> set (columns df) \<longrightarrow> (\<exists>dp. build_dim_product df = Inr dp))"
proof -
  have a: "map product_key (rows dp) = [1..int (length (rows df))] \<and>
      length (rows dp) = length (rows df) \<and>
      distinct (map product_key (rows dp)) \<and>
      map dp_sku (rows dp) = map inv_sku (rows df) \<and>
      (\<forall>i<length (rows df). product_key (rows dp ! i) = int i + 1 \<and>
                              dp_sku (rows dp ! i) = inv_sku (rows df ! i))"
    if ok: "build_dim_product df = Inr dp"
  proof -
    let ?ks = "[1..int (length (rows df))]"
    have len: "length ?ks = length (rows df)" by simp
    have k: "map product_key (rows dp) = ?ks"
      unfolding build_dim_product_rows [OF ok] using len
      by (simp add: comp_def case_prod_unfold flip: map_map [unfolded comp_def])
    have s: "map dp_sku (rows dp) = map inv_sku (rows df)"
      unfolding build_dim_product_rows [OF ok] using len
      by (simp add: comp_def case_prod_unfold flip: map_map [unfolded comp_def])
    have l: "length (rows dp) = length (rows df)"
      unfolding build_dim_product_rows [OF ok] by simp
    have d: "distinct (map product_key (rows dp))" unfolding k by simp
    have i: "\<forall>i<length (rows df). product_key (rows dp ! i) = int i + 1 \<and>
                              dp_sku (rows dp ! i) = inv_sku (rows df ! i)"
    proof (intro allI impI)
      fix i assume i: "i < length (rows df)"
      have "product_key (rows dp ! i) = map product_key (rows dp) ! i" using i l by simp
      also have "\<dots> = ?ks ! i" by (simp only: k)
      also have "\<dots> = int i + 1" using i by simp
      finally have 1: "product_key (rows dp ! i) = int i + 1" .
      have "dp_sku (rows dp ! i) = map dp_sku (rows dp) ! i" using i l by simp
      also have "\<dots> = inv_sku (rows df ! i)" using i by (simp only: s) simp
      finally show "product_key (rows dp ! i) = int i + 1 \<and> dp_sku (rows dp ! i) = inv_sku (rows df ! i)"
        using 1 by simp
    qed
    from k l d s i show ?thesis by blast
  qed
  have b: "\<exists>dp. build_dim_product df = Inr dp" if "set dim_columns \<subseteq> set (columns df)"
  proof -
    have "filter (\<lambda>c. c \<notin> set (columns df)) dim_columns = []"
      using that by (auto simp: filter_empty_conv)
    then show ?thesis unfolding build_dim_product_def Let_def by simp
  qed
  from a b show ?thesis by blast
qed

theorem build_dim_product_keys_witness:
  "build_dim_product seven_products = Inr seven_dim \<and>
   map product_key (rows seven_dim) = [1..int (length (rows seven_products))] \<and>
   length (rows seven_dim) = length (rows seven_products) \<and>
   distinct (map product_key (rows seven_dim)) \<and>
   map dp_sku (rows seven_dim) = map inv_sku (rows seven_products)"
  using build_dim_product_keys [of seven_products seven_dim] build_dim_product_seven
  by blast

text \<open>
  C7, as the code has it. Every fact row that \<^verbatim>\<open>build_fact_sales\<close> returns has as
  DateKey the integer read from the \<^verbatim>\<open>%Y%m%d\<close> text of its sale date, that is
  year * 10000 + month * 100 + day. The DateKey has eight digits exactly when the year
  of the date is from 1000 to 9999. The sales row of scenario D, joined with any product
  table in which SKU001 has the one key 7, yields the fact row with DateKey 20240305,
  ProductKey 7 and Quantity 10.
\<close>

theorem build_fact_sales_date_key:
  "(build_fact_sales parse df_sales dp = Inr facts \<longrightarrow>
      list_all2
        (\<lambda>lk f. \<exists>t d. csv_date (fst lk) = Some t \<and>
             to_timestamp parse (map (\<lambda>(l, k). csv_date l) (merge_left (rows df_sales) (rows dp))) t =
               Some d \<and>
             int_of_str (strftime_Ymd d) = Some (date_key f) \<and>
             date_key f = int (year d) * 10000 + int (month d) * 100 + int (day d) \<and>
             ((10000000 \<le> date_key f \<and> date_key f \<le> 99999999) \<longleftrightarrow>
              (1000 \<le> year d \<and> year d \<le> 9999)))
        (merge_left (rows df_sales) (rows dp)) (rows facts)) \<and>
   (set [''ProductKey'', ''SKU Code''] \<subseteq> set (columns dp) \<and>
    filter (\<lambda>r. dp_sku r = Some ''SKU001'') (rows dp) = [r] \<and> product_key r = 7 \<longrightarrow>
    build_fact_sales iso_date scenario_d dp = Inr scenario_d_fact)"
proof -
  let ?col = "map (\<lambda>(l, k). csv_date l) (merge_left (rows df_sales) (rows dp))"
  let ?P = "\<lambda>lk f. \<exists>t d. csv_date (fst lk) = Some t \<and> to_timestamp parse ?col t = Some d \<and>
             int_of_str (strftime_Ymd d) = Some (date_key f) \<and>
             date_key f = int (year d) * 10000 + int (month d) * 100 + int (day d) \<and>
             ((10000000 \<le> date_key f \<and> date_key f \<le> 99999999) \<longleftrightarrow>
              (1000 \<le> year d \<and> year d \<le> 9999))"
  have step: "?P lk f" if h: "fact_of parse ?col lk f" for lk f
  proof -
    obtain t d where t: "csv_date (fst lk) = Some t" and p: "to_timestamp parse ?col t = Some d"
      and i: "int_of_str (strftime_Ymd d) = Some (date_key f)"
      using h unfolding fact_of_def by blast
    have v: "calendar_date d" using p by (rule to_timestamp_calendar)
    note b = calendar_date_bounds [OF v]
    have e: "date_key f = int (year d) * 10000 + int (month d) * 100 + int (day d)"
      using strftime_Ymd_value [OF v] i by simp
    have w: "(10000000 \<le> date_key f \<and> date_key f \<le> 99999999) \<longleftrightarrow>
             (1000 \<le> year d \<and> year d \<le> 9999)"
      unfolding e using b by linarith
    show ?thesis using t p i e w by blast
  qed
  have a: "list_all2 ?P (merge_left (rows df_sales) (rows dp)) (rows facts)"
    if ok: "build_fact_sales parse df_sales dp = Inr facts"
    using build_fact_sales_rows [OF ok] step by (rule list_all2_mono)
  have b: "build_fact_sales iso_date scenario_d dp = Inr scenario_d_fact"
    if "set [''ProductKey'', ''SKU Code''] \<subseteq> set (columns dp) \<and>
        filter (\<lambda>r. dp_sku r = Some ''SKU001'') (rows dp) = [r] \<and> product_key r = 7"
    using that build_fact_sales_scenario_d by blast
  from a b show ?thesis by blast
qed

theorem build_fact_sales_date_key_witness:
  "build_fact_sales iso_date scenario_d seven_dim = Inr scenario_d_fact \<and>
   list_all2
     (\<lambda>lk f. \<exists>t d. csv_date (fst lk) = Some t \<and>
          to_timestamp iso_date (map (\<lambda>(l, k). csv_date l) (merge_left (rows scenario_d) (rows seven_dim))) t =
            Some d \<and>
          int_of_str (strftime_Ymd d) = Some (date_key f) \<and>
          date_key f = int (year d) * 10000 + int (month d) * 100 + int (day d) \<and>
          ((10000000 \<le> date_key f \<and> date_key f \<le> 99999999) \<longleftrightarrow>
           (1000 \<le> year d \<and> year d \<le> 9999)))
     (merge_left (rows scenario_d) (rows seven_dim)) (rows scenario_d_fact)"
proof -
  have c: "set [''ProductKey'', ''SKU Code''] \<subseteq> set (columns seven_dim)"
    by (simp add: seven_dim_def dim_columns_def)
  have f: "filter (\<lambda>r. dp_sku r = Some ''SKU001'') (rows seven_dim) = [seventh]"
    by (simp add: seven_dim_def seventh_def)
  have k: "product_key seventh = 7" by (simp add: seventh_def)
  note t = build_fact_sales_date_key [of iso_date scenario_d seven_dim scenario_d_fact seventh]
  from t c f k have b: "build_fact_sales iso_date scenario_d seven_dim = Inr scenario_d_fact"
    by blast
  with t show ?thesis by blast
qed

text \<open>
  The claim C7 as stated fails on a sale dated 0999-01-02: its DateKey is the integer
  9990102, which has seven digits.
\<close>

theorem build_fact_sales_eight_digits_counterexample:
  "build_fact_sales iso_date old_sale seven_dim = Inr old_sale_fact \<and>
   map csv_date (rows old_sale) = [Some ''0999-01-02''] \<and>
   map date_key (rows old_sale_fact) = [9990102] \<and>
   (9990102 :: int) < 10000000"
proof -
  have a: "map csv_date (rows old_sale) = [Some ''0999-01-02'']"
    by (simp add: old_sale_def)
  have b: "map date_key (rows old_sale_fact) = [9990102]"
    by (simp add: old_sale_fact_def)
  show ?thesis using build_fact_sales_old_sale a b by simp
qed

text \<open>
  C8. When \<^verbatim>\<open>build_fact_sales\<close> returns, no sales row is lost, and every sales row whose
  SKU no product row has is a fact row with a missing ProductKey, its own Quantity and
  the DateKey of its date.
\<close>

theorem build_fact_sales_join_miss:
  assumes "build_fact_sales parse df_sales dp = Inr facts"
  shows "length (rows df_sales) \<le> length (rows facts) \<and>
         (\<forall>l\<in>set (rows df_sales). csv_sku l \<notin> dp_sku ` set (rows dp) \<longrightarrow>
            (\<exists>f\<in>set (rows facts).
               fact_product_key f = None \<and> fact_quantity f = csv_quantity l \<and>
               (\<exists>t d. csv_date l = Some t \<and>
                  to_timestamp parse
                    (map (\<lambda>(l, k). csv_date l) (merge_left (rows df_sales) (rows dp))) t = Some d \<and>
                  int_of_str (strftime_Ymd d) = Some (date_key f))))"
proof -
  let ?m = "merge_left (rows df_sales) (rows dp)"
  let ?col = "map (\<lambda>(l, k). csv_date l) ?m"
  note r = build_fact_sales_rows [OF assms]
  have len: "length ?m = length (rows facts)" using r by (rule list_all2_lengthD)
  have 1: "length (rows df_sales) \<le> length (rows facts)"
    using merge_left_length [of "rows df_sales" "rows dp"] len by simp
  have 2: "\<exists>f\<in>set (rows facts).
               fact_product_key f = None \<and> fact_quantity f = csv_quantity l \<and>
               (\<exists>t d. csv_date l = Some t \<and> to_timestamp parse ?col t = Some d \<and>
                  int_of_str (strftime_Ymd d) = Some (date_key f))"
    if l: "l \<in> set (rows df_sales)" and miss: "csv_sku l \<notin> dp_sku ` set (rows dp)" for l
  proof -
    have "(l, None) \<in> set ?m" using l miss by (rule merge_left_miss)
    then obtain n where n: "n < length ?m" and mn: "?m ! n = (l, None)"
      by (auto simp: in_set_conv_nth)
    have "fact_of parse ?col (?m ! n) (rows facts ! n)"
      using r n by (rule list_all2_nthD)
    then have "fact_product_key (rows facts ! n) = None \<and>
               fact_quantity (rows facts ! n) = csv_quantity l \<and>
               (\<exists>t d. csv_date l = Some t \<and> to_timestamp parse ?col t = Some d \<and>
                  int_of_str (strftime_Ymd d) = Some (date_key (rows facts ! n)))"
      unfolding fact_of_def mn by simp
    moreover have "rows facts ! n \<in> set (rows facts)" using n len by simp
    ultimately show ?thesis by blast
  qed
  from 1 2 show ?thesis by blast
qed

theorem build_fact_sales_join_miss_witness:
  "build_fact_sales iso_date sales_with_miss seven_dim = Inr facts_with_miss \<and>
   map csv_sku (rows sales_with_miss) = [Some ''SKU001'', Some ''SKU999''] \<and>
   Some ''SKU999'' \<notin> dp_sku ` set (rows seven_dim) \<and>
   length (rows sales_with_miss) \<le> length (rows facts_with_miss) \<and>
   (\<exists>f\<in>set (rows facts_with_miss). fact_product_key f = None \<and> fact_quantity f = Num 4)"
proof -
  let ?l = "\<lparr>csv_sku = Some ''SKU999'', csv_quantity = Num 4, csv_date = Some ''2024-03-06''\<rparr>"
  have a: "map csv_sku (rows sales_with_miss) = [Some ''SKU001'', Some ''SKU999'']"
    by (simp add: sales_with_miss_def)
  have b: "Some ''SKU999'' \<notin> dp_sku ` set (rows seven_dim)"
    by (simp add: seven_dim_def)
  have l: "?l \<in> set (rows sales_with_miss)" by (simp add: sales_with_miss_def)
  have m: "csv_sku ?l \<notin> dp_sku ` set (rows seven_dim)" using b by simp
  note t = build_fact_sales_join_miss [OF build_fact_sales_with_miss]
  from t have c: "length (rows sales_with_miss) \<le> length (rows facts_with_miss)" by blast
  from t l m have "\<exists>f\<in>set (rows facts_with_miss).
      fact_product_key f = None \<and> fact_quantity f = csv_quantity ?l" by blast
  then have d: "\<exists>f\<in>set (rows facts_with_miss). fact_product_key f = None \<and> fact_quantity f = Num 4"
    by simp
  show ?thesis using build_fact_sales_with_miss a b c d by blast
qed

text \<open>
  C9. On a Stock of 1e19 the code departs from the claim: \<^verbatim>\<open>clean_data\<close> returns a
  clean inventory row with the Stock -9223372036854775808, below 0, and its own
  \<^verbatim>\<open>verification_data\<close> logs the negative stock. \<^verbatim>\<open>SalesCleaner.clean_data\<close>, which
  casts first and clips after, returns the Quantity 0 for the same value.
\<close>

theorem clean_data_negative_stock:
  "clean_data huge_stock_input = ([CleaningInventory], Inr huge_stock_output) \<and>
   list_ex (\<lambda>r. inv_stock r < 0) (rows huge_stock_output) \<and>
   NegativeStockError \<in> set (verification_data huge_stock_output) \<and>
   sales_clean_data iso_date no_number huge_quantity_sales one_product =
     ([CleaningSales, NegativeQuantities], Inr huge_quantity_clean) \<and>
   map sale_quantity (rows huge_quantity_clean) = [0]"
proof -
  have a: "list_ex (\<lambda>r. inv_stock r < 0) (rows huge_stock_output)"
    by (simp add: huge_stock_output_def)
  then have b: "NegativeStockError \<in> set (verification_data huge_stock_output)"
    unfolding verification_data_def Let_def by simp
  have c: "map sale_quantity (rows huge_quantity_clean) = [0]"
    by (simp add: huge_quantity_clean_def)
  show ?thesis using clean_data_huge_stock sales_clean_data_huge_quantity a b c by blast
qed

end
